theory Spec2Isabelle
  imports Complex_Main
begin

section \<open>Scalars, vectors and the glm operations used by Collision.hpp\<close>

text \<open>
  The program computes on C++ \<open>float\<close>. The model idealises a float as a \<open>real\<close>:
  addition, multiplication, division and square root are exact, there is no rounding,
  no infinity and no NaN. The two float constants of the source are kept at their exact
  binary32 values: \<open>std::numeric_limits<float>::max()\<close> is \<open>(2^24 - 1) * 2^104\<close> and the
  literal \<open>1e-6f\<close> is \<open>8796093 / 2^43\<close>. The concrete inputs below are chosen so that
  the values the branches depend on are the same in binary32 wherever that is possible.

  \<open>OBB::transform\<close> and \<open>projectPointOntoPlane\<close> are called by none of the functions
  below and are left out.
\<close>

definition FLT_MAX :: real where
  "FLT_MAX = 340282346638528859811704183484516925440"

definition EPS :: real where
  "EPS = 8796093 / 8796093022208"

datatype vec3 = Vec3 (vx: real) (vy: real) (vz: real)

text \<open>\<open>v[i]\<close> on a \<open>glm::vec3\<close>; the source only uses \<open>i\<close> in \<open>{0, 1, 2}\<close>.\<close>

definition component :: "vec3 \<Rightarrow> nat \<Rightarrow> real" where
  "component v i = (if i = 0 then vx v else if i = 1 then vy v else vz v)"

definition vadd :: "vec3 \<Rightarrow> vec3 \<Rightarrow> vec3" where
  "vadd a b = Vec3 (vx a + vx b) (vy a + vy b) (vz a + vz b)"

definition vsub :: "vec3 \<Rightarrow> vec3 \<Rightarrow> vec3" where
  "vsub a b = Vec3 (vx a - vx b) (vy a - vy b) (vz a - vz b)"

definition smul :: "real \<Rightarrow> vec3 \<Rightarrow> vec3" where
  "smul s v = Vec3 (s * vx v) (s * vy v) (s * vz v)"

definition vneg :: "vec3 \<Rightarrow> vec3" where
  "vneg v = Vec3 (- vx v) (- vy v) (- vz v)"

definition glm_dot :: "vec3 \<Rightarrow> vec3 \<Rightarrow> real" where
  "glm_dot a b = vx a * vx b + vy a * vy b + vz a * vz b"

definition glm_cross :: "vec3 \<Rightarrow> vec3 \<Rightarrow> vec3" where
  "glm_cross a b =
     Vec3 (vy a * vz b - vy b * vz a)
          (vz a * vx b - vz b * vx a)
          (vx a * vy b - vx b * vy a)"

definition glm_length2 :: "vec3 \<Rightarrow> real" where
  "glm_length2 v = glm_dot v v"

definition glm_length :: "vec3 \<Rightarrow> real" where
  "glm_length v = sqrt (glm_dot v v)"

text \<open>\<open>glm::normalize(v)\<close> is \<open>v * inversesqrt(dot(v, v))\<close>.\<close>

definition glm_normalize :: "vec3 \<Rightarrow> vec3" where
  "glm_normalize v = smul (1 / sqrt (glm_dot v v)) v"

definition glm_clamp :: "real \<Rightarrow> real \<Rightarrow> real \<Rightarrow> real" where
  "glm_clamp x lo hi = min (max x lo) hi"

section \<open>The box and the result record\<close>

text \<open>
  \<open>glm::vec3 axes[3]\<close> is a triple; \<open>nth3\<close> is the array subscript, which the source
  only applies to \<open>0\<close>, \<open>1\<close>, \<open>2\<close> and \<open>(i + k) % 3\<close>.
\<close>

fun nth3 :: "'a \<times> 'a \<times> 'a \<Rightarrow> nat \<Rightarrow> 'a" where
  "nth3 (a, b, c) i = (if i = 0 then a else if i = 1 then b else c)"

record OBB =
  center :: vec3
  halfExtents :: vec3
  axes :: "vec3 \<times> vec3 \<times> vec3"

record CollisionResult =
  collisionDetected :: bool
  collisionNormal :: vec3
  penetrationDepth :: real
  contactPoint :: vec3
  collisionType :: string

definition getVertices :: "OBB \<Rightarrow> vec3 list" where
  "getVertices obb =
     (let hX = smul (vx (halfExtents obb)) (nth3 (axes obb) 0);
          hY = smul (vy (halfExtents obb)) (nth3 (axes obb) 1);
          hZ = smul (vz (halfExtents obb)) (nth3 (axes obb) 2);
          c = center obb
      in [vadd (vadd (vadd c hX) hY) hZ,
          vsub (vadd (vadd c hX) hY) hZ,
          vadd (vsub (vadd c hX) hY) hZ,
          vsub (vsub (vadd c hX) hY) hZ,
          vadd (vadd (vsub c hX) hY) hZ,
          vsub (vadd (vsub c hX) hY) hZ,
          vadd (vsub (vsub c hX) hY) hZ,
          vsub (vsub (vsub c hX) hY) hZ])"

definition getEdges :: "OBB \<Rightarrow> (vec3 \<times> vec3) list" where
  "getEdges obb =
     (let vertices = getVertices obb
      in [(vertices ! 0, vertices ! 1),
          (vertices ! 2, vertices ! 3),
          (vertices ! 4, vertices ! 5),
          (vertices ! 6, vertices ! 7),
          (vertices ! 0, vertices ! 2),
          (vertices ! 1, vertices ! 3),
          (vertices ! 4, vertices ! 6),
          (vertices ! 5, vertices ! 7),
          (vertices ! 0, vertices ! 4),
          (vertices ! 1, vertices ! 5),
          (vertices ! 2, vertices ! 6),
          (vertices ! 3, vertices ! 7)])"

section \<open>Vertex-face contact recovery\<close>

definition signedDistanceToPlane :: "vec3 \<Rightarrow> vec3 \<Rightarrow> vec3 \<Rightarrow> real" where
  "signedDistanceToPlane point planeOrigin planeNormal =
     glm_dot (vsub point planeOrigin) planeNormal"

definition isPointInFaceBounds ::
  "vec3 \<Rightarrow> vec3 \<Rightarrow> vec3 \<Rightarrow> vec3 \<Rightarrow> real \<Rightarrow> real \<Rightarrow> bool" where
  "isPointInFaceBounds point faceCenter u v uHalf vHalf =
     (let rel = vsub point faceCenter;
          uCoord = glm_dot rel u;
          vCoord = glm_dot rel v
      in \<bar>uCoord\<bar> \<le> uHalf \<and> \<bar>vCoord\<bar> \<le> vHalf)"

text \<open>
  The body of the inner \<open>for (int i = 0; i < 3; ++i)\<close> loop of \<open>vertexFaceCollision\<close>:
  \<open>vertex\<close> is tested against face \<open>i\<close> of \<open>obb\<close>; the state is
  \<open>(closestPoint, closestDistance)\<close>. The source writes this body twice, once with
  \<open>obb2\<close> as the face box and once with \<open>obb1\<close>.
\<close>

definition vfStep :: "OBB \<Rightarrow> vec3 \<Rightarrow> nat \<Rightarrow> vec3 \<times> real \<Rightarrow> vec3 \<times> real" where
  "vfStep obb vertex i st =
     (let faceNormal = nth3 (axes obb) i;
          faceCenter = center obb;
          u = nth3 (axes obb) ((i + 1) mod 3);
          v = nth3 (axes obb) ((i + 2) mod 3);
          distance = signedDistanceToPlane vertex faceCenter faceNormal
      in if distance < 0 then
           if isPointInFaceBounds vertex faceCenter u v
                (component (halfExtents obb) ((i + 1) mod 3))
                (component (halfExtents obb) ((i + 2) mod 3)) then
             if \<bar>distance\<bar> < snd st then (vertex, \<bar>distance\<bar>) else st
           else st
         else st)"

text \<open>One of the two outer loops: every vertex of \<open>vs\<close> against the three faces of \<open>obb\<close>.\<close>

definition vfPass :: "OBB \<Rightarrow> vec3 list \<Rightarrow> vec3 \<times> real \<Rightarrow> vec3 \<times> real" where
  "vfPass obb vs st = fold (\<lambda>vertex. fold (vfStep obb vertex) [0, 1, 2]) vs st"

definition vertexFaceCollision :: "OBB \<Rightarrow> OBB \<Rightarrow> vec3" where
  "vertexFaceCollision obb1 obb2 =
     (let vertices1 = getVertices obb1;
          vertices2 = getVertices obb2;
          st0 = (Vec3 0 0 0, FLT_MAX);
          st1 = vfPass obb2 vertices1 st0;
          st2 = vfPass obb1 vertices2 st1
      in fst st2)"

section \<open>Edge-edge contact recovery\<close>

definition squaredDistanceBetweenEdges :: "vec3 \<Rightarrow> vec3 \<Rightarrow> vec3 \<Rightarrow> vec3 \<Rightarrow> real" where
  "squaredDistanceBetweenEdges p1 q1 p2 q2 =
     (let d1 = vsub q1 p1;
          d2 = vsub q2 p2;
          r = vsub p1 p2;
          a = glm_dot d1 d1;
          e = glm_dot d2 d2;
          f = glm_dot d2 r
      in if a \<le> EPS \<and> e \<le> EPS then glm_dot r r
         else
           let (s, t) =
             (if a \<le> EPS then (0, glm_clamp (f / e) 0 1)
              else
                let c = glm_dot d1 r
                in if e \<le> EPS then (glm_clamp (- c / a) 0 1, 0)
                   else
                     let b = glm_dot d1 d2;
                         denom = a * e - b * b;
                         s = (if denom \<noteq> 0 then glm_clamp ((b * f - c * e) / denom) 0 1 else 0)
                     in (s, glm_clamp ((b * s + f) / e) 0 1));
               c1 = vadd p1 (smul s d1);
               c2 = vadd p2 (smul t d2)
           in glm_length2 (vsub c1 c2))"

text \<open>
  \<open>findClosestEdges\<close>: the state of the double loop is
  \<open>(minDistanceSquared, closestEdges)\<close>. \<open>closestEdges\<close> starts as a default-constructed
  \<open>std::pair\<close>, which value-initialises its members: four zero vectors.
\<close>

definition fceStep ::
  "vec3 \<times> vec3 \<Rightarrow> vec3 \<times> vec3 \<Rightarrow> real \<times> (vec3 \<times> vec3) \<times> (vec3 \<times> vec3)
     \<Rightarrow> real \<times> (vec3 \<times> vec3) \<times> (vec3 \<times> vec3)" where
  "fceStep edge1 edge2 st =
     (let distSquared = squaredDistanceBetweenEdges (fst edge1) (snd edge1) (fst edge2) (snd edge2)
      in if distSquared < fst st then (distSquared, edge1, edge2) else st)"

definition findClosestEdges :: "OBB \<Rightarrow> OBB \<Rightarrow> (vec3 \<times> vec3) \<times> (vec3 \<times> vec3)" where
  "findClosestEdges obb1 obb2 =
     (let edges1 = getEdges obb1;
          edges2 = getEdges obb2;
          st0 = (FLT_MAX, (Vec3 0 0 0, Vec3 0 0 0), (Vec3 0 0 0, Vec3 0 0 0))
      in snd (fold (\<lambda>edge1. fold (fceStep edge1) edges2) edges1 st0))"

definition closestPointBetweenLines :: "vec3 \<Rightarrow> vec3 \<Rightarrow> vec3 \<Rightarrow> vec3 \<Rightarrow> vec3" where
  "closestPointBetweenLines p1 q1 p2 q2 =
     (let d1 = vsub q1 p1;
          d2 = vsub q2 p2;
          r = vsub p1 p2;
          a = glm_dot d1 d1;
          e = glm_dot d2 d2;
          f = glm_dot d2 r
      in if a \<le> EPS \<and> e \<le> EPS then p1
         else
           let (s, t) =
             (if a \<le> EPS then (0, glm_clamp (f / e) 0 1)
              else
                let c = glm_dot d1 r
                in if e \<le> EPS then (glm_clamp (- c / a) 0 1, 0)
                   else
                     let b = glm_dot d1 d2;
                         denom = a * e - b * b;
                         s = (if denom \<noteq> 0 then glm_clamp ((b * f - c * e) / denom) 0 1 else 0)
                     in (s, glm_clamp ((b * s + f) / e) 0 1));
               c1 = vadd p1 (smul s d1);
               c2 = vadd p2 (smul t d2)
           in if glm_length (vsub c1 p1) < glm_length (vsub c2 p2) then c1 else c2)"

definition edgeEdgeCollision :: "OBB \<Rightarrow> OBB \<Rightarrow> vec3" where
  "edgeEdgeCollision obb1 obb2 =
     (let closestEdges = findClosestEdges obb1 obb2;
          edge1 = fst closestEdges;
          edge2 = snd closestEdges
      in closestPointBetweenLines (fst edge1) (snd edge1) (fst edge2) (snd edge2))"

section \<open>Projection, overlap and the SAT driver\<close>

text \<open>\<open>projectOBB\<close> writes both of its out-parameters; the model returns \<open>(min, max)\<close>.\<close>

definition projectOBB :: "OBB \<Rightarrow> vec3 \<Rightarrow> real \<times> real" where
  "projectOBB obb axis =
     (let centerProjection = glm_dot (center obb) axis;
          extent = vx (halfExtents obb) * \<bar>glm_dot (nth3 (axes obb) 0) axis\<bar> +
                   vy (halfExtents obb) * \<bar>glm_dot (nth3 (axes obb) 1) axis\<bar> +
                   vz (halfExtents obb) * \<bar>glm_dot (nth3 (axes obb) 2) axis\<bar>
      in (centerProjection - extent, centerProjection + extent))"

text \<open>
  \<open>overlapOnAxis\<close> takes the current content \<open>depth\<close> of its out-parameter
  \<open>penetrationDepth\<close> and returns the boolean with the new content: untouched when the
  axis separates. (The record field \<open>penetrationDepth\<close> has the name already.)
\<close>

definition overlapOnAxis :: "OBB \<Rightarrow> OBB \<Rightarrow> vec3 \<Rightarrow> real \<Rightarrow> bool \<times> real" where
  "overlapOnAxis obb1 obb2 axis depth =
     (let (min1, max1) = projectOBB obb1 axis;
          (min2, max2) = projectOBB obb2 axis
      in if max1 < min2 \<or> max2 < min1 then (False, depth)
         else (True, min max1 max2 - max min1 min2))"

text \<open>
  The candidate axes: the buffer \<open>testAxes[15]\<close> with its running index \<open>idx\<close> is the list
  of its first \<open>idx\<close> entries (the loop that follows reads no other entry).
\<close>

definition crossAxes :: "OBB \<Rightarrow> OBB \<Rightarrow> vec3 list" where
  "crossAxes obb1 obb2 =
     concat (map (\<lambda>i. concat (map (\<lambda>j.
        let crossAxis = glm_cross (nth3 (axes obb1) i) (nth3 (axes obb2) j)
        in if glm_length crossAxis > EPS then [glm_normalize crossAxis] else [])
        [0, 1, 2])) [0, 1, 2])"

definition testAxes :: "OBB \<Rightarrow> OBB \<Rightarrow> vec3 list" where
  "testAxes obb1 obb2 =
     [nth3 (axes obb1) 0, nth3 (axes obb1) 1, nth3 (axes obb1) 2,
      nth3 (axes obb2) 0, nth3 (axes obb2) 1, nth3 (axes obb2) 2] @ crossAxes obb1 obb2"

text \<open>
  The overlap loop \<open>for (int i = 0; i < idx; ++i)\<close> over the axes still to test, from
  index \<open>i\<close>; the state is \<open>(minPenetrationDepth, smallestAxis, axisType)\<close>. \<open>None\<close> is
  the early \<open>return false\<close>.
\<close>

fun satLoop ::
  "OBB \<Rightarrow> OBB \<Rightarrow> vec3 list \<Rightarrow> int \<Rightarrow> real \<times> vec3 \<times> int \<Rightarrow> (real \<times> vec3 \<times> int) option" where
  "satLoop obb1 obb2 [] i st = Some st"
| "satLoop obb1 obb2 (axis # rest) i (minPenetrationDepth, smallestAxis, axisType) =
     (case overlapOnAxis obb1 obb2 axis 0 of
        (False, _) \<Rightarrow> None
      | (True, depth) \<Rightarrow>
          if depth < minPenetrationDepth
          then satLoop obb1 obb2 rest (i + 1) (depth, axis, i)
          else satLoop obb1 obb2 rest (i + 1) (minPenetrationDepth, smallestAxis, axisType))"

text \<open>
  \<open>SATCollision\<close>. The local \<open>glm::vec3 smallestAxis\<close> is declared without an initialiser;
  its indeterminate content is the parameter \<open>garbage\<close>. The function returns its boolean
  with the content of the \<open>result\<close> reference after the call.
\<close>

definition SATCollision ::
  "vec3 \<Rightarrow> OBB \<Rightarrow> OBB \<Rightarrow> CollisionResult \<Rightarrow> bool \<times> CollisionResult" where
  "SATCollision garbage obb1 obb2 result =
     (case satLoop obb1 obb2 (testAxes obb1 obb2) 0 (FLT_MAX, garbage, - 1) of
        None \<Rightarrow> (False, result)
      | Some (minPenetrationDepth, smallestAxis, axisType) \<Rightarrow>
          (let result1 = result\<lparr>collisionDetected := True,
                                penetrationDepth := minPenetrationDepth,
                                collisionNormal := smallestAxis\<rparr>;
               result2 =
                 (if axisType \<ge> 0 \<and> axisType \<le> 5 then
                    result1\<lparr>collisionType := ''vertex-face'',
                            contactPoint := vertexFaceCollision obb1 obb2\<rparr>
                  else if axisType \<ge> 6 \<and> axisType \<le> 14 then
                    result1\<lparr>collisionType := ''edge-edge'',
                            contactPoint := edgeEdgeCollision obb1 obb2\<rparr>
                  else result1)
           in (True, result2)))"

section \<open>Notions used to state the properties\<close>

text \<open>
  The two outcomes of \<open>overlapOnAxis\<close>, named: an axis separates the boxes when one
  projected interval lies wholly left of the other; otherwise the overlap length is
  \<open>min(max1, max2) - max(min1, min2)\<close>.
\<close>

definition axisSeparates :: "OBB \<Rightarrow> OBB \<Rightarrow> vec3 \<Rightarrow> bool" where
  "axisSeparates obb1 obb2 axis =
     (snd (projectOBB obb1 axis) < fst (projectOBB obb2 axis) \<or>
      snd (projectOBB obb2 axis) < fst (projectOBB obb1 axis))"

definition axisOverlap :: "OBB \<Rightarrow> OBB \<Rightarrow> vec3 \<Rightarrow> real" where
  "axisOverlap obb1 obb2 axis =
     min (snd (projectOBB obb1 axis)) (snd (projectOBB obb2 axis)) -
     max (fst (projectOBB obb1 axis)) (fst (projectOBB obb2 axis))"

text \<open>
  \<open>isFirstMin ds k\<close>: position \<open>k\<close> holds the minimum of the list \<open>ds\<close> and no earlier
  position does. This is the axis the strict comparison of the overlap loop keeps.
\<close>

definition isFirstMin :: "real list \<Rightarrow> nat \<Rightarrow> bool" where
  "isFirstMin ds k =
     (k < length ds \<and> (\<forall>j \<in> {..<length ds}. ds ! k \<le> ds ! j) \<and> (\<forall>j \<in> {..<k}. ds ! k < ds ! j))"

text \<open>
  The edge axes in the words of the specification: the cross products of box1's axis \<open>i\<close>
  with box2's axis \<open>j\<close> for the pairs \<open>(i, j)\<close> in row-major order, those of length at
  most \<open>1e-6f\<close> dropped, the others normalised.
\<close>

definition axisPairs :: "(nat \<times> nat) list" where
  "axisPairs = [(0, 0), (0, 1), (0, 2), (1, 0), (1, 1), (1, 2), (2, 0), (2, 1), (2, 2)]"

definition edgeAxesSpec :: "OBB \<Rightarrow> OBB \<Rightarrow> vec3 list" where
  "edgeAxesSpec obb1 obb2 =
     map glm_normalize
       (filter (\<lambda>c. \<not> glm_length c \<le> EPS)
          (map (\<lambda>(i, j). glm_cross (nth3 (axes obb1) i) (nth3 (axes obb2) j)) axisPairs))"

text \<open>
  The two tests of the inner loop of \<open>vertexFaceCollision\<close>, named: \<open>vertex\<close> is a
  candidate for face \<open>i\<close> of \<open>obb\<close> when its signed distance to the plane through the
  centre of \<open>obb\<close> with normal \<open>axes[i]\<close> is strictly negative and it projects within the
  half-extents of the two other axes; \<open>vfDistance\<close> is the absolute value of that distance.
\<close>

definition vfCandidate :: "OBB \<Rightarrow> vec3 \<Rightarrow> nat \<Rightarrow> bool" where
  "vfCandidate obb vertex i =
     (signedDistanceToPlane vertex (center obb) (nth3 (axes obb) i) < 0 \<and>
      isPointInFaceBounds vertex (center obb)
        (nth3 (axes obb) ((i + 1) mod 3)) (nth3 (axes obb) ((i + 2) mod 3))
        (component (halfExtents obb) ((i + 1) mod 3)) (component (halfExtents obb) ((i + 2) mod 3)))"

definition vfDistance :: "OBB \<Rightarrow> vec3 \<Rightarrow> nat \<Rightarrow> real" where
  "vfDistance obb vertex i = \<bar>signedDistanceToPlane vertex (center obb) (nth3 (axes obb) i)\<bar>"

text \<open>
  The (face box, vertex, face index) triples in the order the two loops visit them.
\<close>

definition vfTests :: "OBB \<Rightarrow> OBB \<Rightarrow> (OBB \<times> vec3 \<times> nat) list" where
  "vfTests obb1 obb2 =
     concat (map (\<lambda>vertex. map (\<lambda>i. (obb2, vertex, i)) [0, 1, 2]) (getVertices obb1)) @
     concat (map (\<lambda>vertex. map (\<lambda>i. (obb1, vertex, i)) [0, 1, 2]) (getVertices obb2))"

text \<open>
  \<open>isContactCandidate obb1 obb2 v d\<close>: \<open>v\<close> is a vertex of one box that is a candidate for
  some face of the other, with absolute penetration distance \<open>d\<close>.
\<close>

definition isContactCandidate :: "OBB \<Rightarrow> OBB \<Rightarrow> vec3 \<Rightarrow> real \<Rightarrow> bool" where
  "isContactCandidate obb1 obb2 v d =
     (\<exists>i \<in> {0, 1, 2}.
        v \<in> set (getVertices obb1) \<and> vfCandidate obb2 v i \<and> d = vfDistance obb2 v i \<or>
        v \<in> set (getVertices obb2) \<and> vfCandidate obb1 v i \<and> d = vfDistance obb1 v i)"

text \<open>
  The parameters \<open>(s, t)\<close> that \<open>squaredDistanceBetweenEdges\<close> and
  \<open>closestPointBetweenLines\<close> both compute, branch for branch; where both segments are
  points the source returns before it sets them, and they are taken as \<open>(0, 0)\<close>.
\<close>

definition closestParams :: "vec3 \<Rightarrow> vec3 \<Rightarrow> vec3 \<Rightarrow> vec3 \<Rightarrow> real \<times> real" where
  "closestParams p1 q1 p2 q2 =
     (let d1 = vsub q1 p1;
          d2 = vsub q2 p2;
          r = vsub p1 p2;
          a = glm_dot d1 d1;
          e = glm_dot d2 d2;
          f = glm_dot d2 r
      in if a \<le> EPS \<and> e \<le> EPS then (0, 0)
         else if a \<le> EPS then (0, glm_clamp (f / e) 0 1)
         else
           let c = glm_dot d1 r
           in if e \<le> EPS then (glm_clamp (- c / a) 0 1, 0)
              else
                let b = glm_dot d1 d2;
                    denom = a * e - b * b;
                    s = (if denom \<noteq> 0 then glm_clamp ((b * f - c * e) / denom) 0 1 else 0)
                in (s, glm_clamp ((b * s + f) / e) 0 1))"

text \<open>The point \<open>p + u (q - p)\<close> of the segment from \<open>p\<close> to \<open>q\<close>.\<close>

definition pointOn :: "vec3 \<Rightarrow> vec3 \<Rightarrow> real \<Rightarrow> vec3" where
  "pointOn p q u = vadd p (smul u (vsub q p))"



section \<open>Example inputs\<close>

definition unitAxes :: "vec3 \<times> vec3 \<times> vec3" where
  "unitAxes = (Vec3 1 0 0, Vec3 0 1 0, Vec3 0 0 1)"

text \<open>
  The first example of the specification: box A at the origin and box B centred at
  \<open>(1.5,0,0)\<close>, both of half-extents \<open>(1,1,1)\<close> and world-aligned.
\<close>

definition boxA :: OBB where
  "boxA = \<lparr>center = Vec3 0 0 0, halfExtents = Vec3 1 1 1, axes = unitAxes\<rparr>"

definition boxB :: OBB where
  "boxB = \<lparr>center = Vec3 (3 / 2) 0 0, halfExtents = Vec3 1 1 1, axes = unitAxes\<rparr>"

text \<open>The second example of the specification: box A against a box centred at \<open>(3,0,0)\<close>.\<close>

definition boxC :: OBB where
  "boxC = \<lparr>center = Vec3 3 0 0, halfExtents = Vec3 1 1 1, axes = unitAxes\<rparr>"

text \<open>Box A's neighbour: it shares the face \<open>x = 1\<close> with box A.\<close>

definition boxD :: OBB where
  "boxD = \<lparr>center = Vec3 2 0 0, halfExtents = Vec3 1 1 1, axes = unitAxes\<rparr>"

text \<open>
  A result record as its declaration initialises it: the flag is false and the type is the
  empty string (the other fields are arbitrary; zero here).
\<close>

definition emptyResult :: CollisionResult where
  "emptyResult = \<lparr>collisionDetected = False, collisionNormal = Vec3 0 0 0,
     penetrationDepth = 0, contactPoint = Vec3 0 0 0, collisionType = ''''\<rparr>"

text \<open>A result record that a caller has used before.\<close>

definition staleResult :: CollisionResult where
  "staleResult = \<lparr>collisionDetected = False, collisionNormal = Vec3 0 0 0,
     penetrationDepth = 0, contactPoint = Vec3 7 7 7, collisionType = ''stale''\<rparr>"


text \<open>
  A cube of half-extent \<open>FLT_MAX / 2\<close> (a binary32 value): against itself every candidate
  axis has overlap exactly \<open>FLT_MAX\<close>, in binary32 as in the model.
\<close>

definition hugeBox :: OBB where
  "hugeBox = \<lparr>center = Vec3 0 0 0,
     halfExtents = Vec3 170141173319264429905852091742258462720
                        170141173319264429905852091742258462720
                        170141173319264429905852091742258462720,
     axes = unitAxes\<rparr>"

text \<open>
  A small cube inside a flat slab, all of it on the positive side of the slab's three
  centre planes: no vertex of either box is a candidate.
\<close>

definition slabBox :: OBB where
  "slabBox = \<lparr>center = Vec3 0 0 0, halfExtents = Vec3 8 8 2, axes = unitAxes\<rparr>"

definition smallBox :: OBB where
  "smallBox = \<lparr>center = Vec3 3 3 2, halfExtents = Vec3 1 1 1, axes = unitAxes\<rparr>"








section \<open>Properties: the example of the specification\<close>

lemma crossAxes_boxA_boxB:
  "crossAxes boxA boxB =
     [Vec3 0 0 1, Vec3 0 (- 1) 0, Vec3 0 0 (- 1), Vec3 1 0 0, Vec3 0 1 0, Vec3 (- 1) 0 0]"
  by (simp add: crossAxes_def boxA_def boxB_def unitAxes_def glm_cross_def glm_length_def
      glm_dot_def glm_normalize_def EPS_def smul_def)

lemma SATCollision_boxA_boxB:
  "SATCollision g boxA boxB res =
     (True, res\<lparr>collisionDetected := True, penetrationDepth := 1 / 2,
                 collisionNormal := Vec3 1 0 0, collisionType := ''vertex-face'',
                 contactPoint := vertexFaceCollision boxA boxB\<rparr>)"
proof -
  have axes_eq: "testAxes boxA boxB =
      [Vec3 1 0 0, Vec3 0 1 0, Vec3 0 0 1, Vec3 1 0 0, Vec3 0 1 0, Vec3 0 0 1,
       Vec3 0 0 1, Vec3 0 (- 1) 0, Vec3 0 0 (- 1), Vec3 1 0 0, Vec3 0 1 0, Vec3 (- 1) 0 0]"
    by (simp add: testAxes_def crossAxes_boxA_boxB) (simp add: boxA_def boxB_def unitAxes_def)
  show ?thesis
    unfolding SATCollision_def axes_eq
    by (simp add: boxA_def boxB_def unitAxes_def overlapOnAxis_def projectOBB_def
        glm_dot_def FLT_MAX_def)
qed

text \<open>
  Claim C3. Box A (center \<open>(0,0,0)\<close>, half-extents \<open>(1,1,1)\<close>, world-aligned axes) against
  box B (center \<open>(1.5,0,0)\<close>, half-extents \<open>(1,1,1)\<close>, world-aligned axes): \<open>SATCollision\<close>
  returns true, the reported penetration depth is \<open>0.5\<close> and the reported collision type
  is \<open>vertex-face\<close>, whatever the result record held before the call and whatever the
  uninitialised local held.
\<close>

theorem C3_example_boxes:
  "fst (SATCollision g boxA boxB res) = True \<and>
   penetrationDepth (snd (SATCollision g boxA boxB res)) = 1 / 2 \<and>
   collisionType (snd (SATCollision g boxA boxB res)) = ''vertex-face'' \<and>
   boxA = \<lparr>center = Vec3 0 0 0, halfExtents = Vec3 1 1 1,
            axes = (Vec3 1 0 0, Vec3 0 1 0, Vec3 0 0 1)\<rparr> \<and>
   boxB = \<lparr>center = Vec3 (3 / 2) 0 0, halfExtents = Vec3 1 1 1,
            axes = (Vec3 1 0 0, Vec3 0 1 0, Vec3 0 0 1)\<rparr>"
  by (simp add: SATCollision_boxA_boxB) (simp add: boxA_def boxB_def unitAxes_def)

section \<open>The overlap loop and the candidate axes\<close>

lemma overlapOnAxis_eq:
  "overlapOnAxis obb1 obb2 axis d =
     (if axisSeparates obb1 obb2 axis then (False, d) else (True, axisOverlap obb1 obb2 axis))"
  by (simp add: overlapOnAxis_def axisSeparates_def axisOverlap_def split: prod.splits)

lemma satLoop_None_iff:
  "satLoop obb1 obb2 axs i st = None \<longleftrightarrow> (\<exists>a \<in> set axs. axisSeparates obb1 obb2 a)"
proof (induction axs arbitrary: i st)
  case Nil
  show ?case by simp
next
  case (Cons a axs)
  obtain m ax t where st: "st = (m, ax, t)" by (cases st)
  show ?case
    by (simp add: st overlapOnAxis_eq Cons.IH)
qed

lemma satLoop_Some_split:
  assumes "satLoop obb1 obb2 axs i (m, ax, t) = Some (m', ax', t')"
  shows "(m', ax', t') = (m, ax, t) \<and> (\<forall>a \<in> set axs. m \<le> axisOverlap obb1 obb2 a) \<or>
         (\<exists>pre post. axs = pre @ ax' # post \<and> t' = i + int (length pre) \<and>
            m' = axisOverlap obb1 obb2 ax' \<and> m' < m \<and>
            (\<forall>a \<in> set pre. m' < axisOverlap obb1 obb2 a) \<and>
            (\<forall>a \<in> set post. m' \<le> axisOverlap obb1 obb2 a))"
  using assms
proof (induction axs arbitrary: i m ax t)
  case Nil
  then show ?case by simp
next
  case (Cons a axs)
  let ?d = "axisOverlap obb1 obb2 a"
  from Cons.prems have nosep: "\<not> axisSeparates obb1 obb2 a"
    by (auto simp: overlapOnAxis_eq split: if_splits)
  show ?case
  proof (cases "?d < m")
    case True
    with Cons.prems nosep
    have rec: "satLoop obb1 obb2 axs (i + 1) (?d, a, i) = Some (m', ax', t')"
      by (simp add: overlapOnAxis_eq)
    from Cons.IH [OF rec] show ?thesis
    proof (elim disjE conjE exE)
      assume eq: "(m', ax', t') = (?d, a, i)"
        and ge: "\<forall>x \<in> set axs. ?d \<le> axisOverlap obb1 obb2 x"
      have "a # axs = [] @ ax' # axs \<and> t' = i + int (length ([]::vec3 list)) \<and>
            m' = axisOverlap obb1 obb2 ax' \<and> m' < m \<and>
            (\<forall>x \<in> set []. m' < axisOverlap obb1 obb2 x) \<and>
            (\<forall>x \<in> set axs. m' \<le> axisOverlap obb1 obb2 x)"
        using eq ge True by simp
      then show ?thesis by blast
    next
      fix pre post
      assume h: "axs = pre @ ax' # post" "t' = i + 1 + int (length pre)"
        "m' = axisOverlap obb1 obb2 ax'" "m' < ?d"
        "\<forall>x \<in> set pre. m' < axisOverlap obb1 obb2 x"
        "\<forall>x \<in> set post. m' \<le> axisOverlap obb1 obb2 x"
      have "a # axs = (a # pre) @ ax' # post \<and> t' = i + int (length (a # pre)) \<and>
            m' = axisOverlap obb1 obb2 ax' \<and> m' < m \<and>
            (\<forall>x \<in> set (a # pre). m' < axisOverlap obb1 obb2 x) \<and>
            (\<forall>x \<in> set post. m' \<le> axisOverlap obb1 obb2 x)"
        using h True by simp
      then show ?thesis by blast
    qed
  next
    case False
    with Cons.prems nosep
    have rec: "satLoop obb1 obb2 axs (i + 1) (m, ax, t) = Some (m', ax', t')"
      by (simp add: overlapOnAxis_eq)
    from Cons.IH [OF rec] show ?thesis
    proof (elim disjE conjE exE)
      assume eq: "(m', ax', t') = (m, ax, t)"
        and ge: "\<forall>x \<in> set axs. m \<le> axisOverlap obb1 obb2 x"
      then show ?thesis using False by simp
    next
      fix pre post
      assume h: "axs = pre @ ax' # post" "t' = i + 1 + int (length pre)"
        "m' = axisOverlap obb1 obb2 ax'" "m' < m"
        "\<forall>x \<in> set pre. m' < axisOverlap obb1 obb2 x"
        "\<forall>x \<in> set post. m' \<le> axisOverlap obb1 obb2 x"
      have "a # axs = (a # pre) @ ax' # post \<and> t' = i + int (length (a # pre)) \<and>
            m' = axisOverlap obb1 obb2 ax' \<and> m' < m \<and>
            (\<forall>x \<in> set (a # pre). m' < axisOverlap obb1 obb2 x) \<and>
            (\<forall>x \<in> set post. m' \<le> axisOverlap obb1 obb2 x)"
        using h False by simp
      then show ?thesis by blast
    qed
  qed
qed

lemma satLoop_depth:
  assumes "satLoop obb1 obb2 axs i (m, ax, t) = Some (m', ax', t')"
  shows "m' = Min (insert m (axisOverlap obb1 obb2 ` set axs))"
proof -
  let ?S = "insert m (axisOverlap obb1 obb2 ` set axs)"
  have fin: "finite ?S" by simp
  from satLoop_Some_split [OF assms]
  have "m' \<in> ?S \<and> (\<forall>x \<in> ?S. m' \<le> x)"
    by (elim disjE conjE exE) auto
  then show ?thesis
    using fin by (metis Min_eqI)
qed

lemma concat_map_if_singleton:
  "concat (map (\<lambda>x. if P x then [g x] else []) xs) = map g (filter P xs)"
  by (induction xs) simp_all

lemma concat_map_nested:
  "concat (map (\<lambda>i. concat (map (f i) js)) is) =
     concat (map (\<lambda>(i, j). f i j) (List.product is js))"
proof (induction "is")
  case Nil
  show ?case by simp
next
  case (Cons i "is")
  have "(\<lambda>(x, y). f x y) \<circ> Pair i = f i"
    by (rule ext) simp
  with Cons show ?case by simp
qed

lemma crossAxes_eq_spec: "crossAxes obb1 obb2 = edgeAxesSpec obb1 obb2"
proof -
  let ?c = "\<lambda>(i, j). glm_cross (nth3 (axes obb1) i) (nth3 (axes obb2) j)"
  have "crossAxes obb1 obb2 =
      concat (map (\<lambda>(i, j). if \<not> glm_length (?c (i, j)) \<le> EPS then [glm_normalize (?c (i, j))] else [])
        (List.product [0, 1, 2] [0, 1, 2]))"
    unfolding crossAxes_def Let_def
    by (subst concat_map_nested) (simp add: not_le)
  also have "\<dots> = concat (map (\<lambda>c. if \<not> glm_length c \<le> EPS then [glm_normalize c] else [])
        (map ?c (List.product [0, 1, 2] [0, 1, 2])))"
    by (simp add: comp_def case_prod_unfold)
  also have "\<dots> = map glm_normalize (filter (\<lambda>c. \<not> glm_length c \<le> EPS)
        (map ?c (List.product [0, 1, 2] [0, 1, 2])))"
    by (rule concat_map_if_singleton)
  also have "List.product [0, 1, 2] [0, 1, 2] = axisPairs"
    by (simp add: axisPairs_def)
  finally show ?thesis by (simp add: edgeAxesSpec_def)
qed

lemma length_crossAxes: "length (crossAxes obb1 obb2) \<le> 9"
proof -
  have "length (crossAxes obb1 obb2) \<le> length axisPairs"
    unfolding crossAxes_eq_spec edgeAxesSpec_def
    by (simp add: order_trans [OF length_filter_le])
  then show ?thesis by (simp add: axisPairs_def)
qed

lemma length_testAxes: "6 \<le> length (testAxes obb1 obb2)" "length (testAxes obb1 obb2) \<le> 15"
  using length_crossAxes [of obb1 obb2] by (simp_all add: testAxes_def)

lemma split_to_isFirstMin:
  assumes "axs = pre @ a # post"
    and "\<forall>x \<in> set pre. f a < f x" and "\<forall>x \<in> set post. f a \<le> f x"
  shows "isFirstMin (map f axs) (length pre)"
  unfolding isFirstMin_def
proof (intro conjI ballI)
  show "length pre < length (map f axs)" using assms(1) by simp
next
  fix j assume "j \<in> {..<length (map f axs)}"
  then have j: "j < length axs" by simp
  have "f a \<le> f (axs ! j)"
  proof (cases "j < length pre")
    case True
    then have "axs ! j \<in> set pre" using assms(1) by (simp add: nth_append)
    with assms(2) show ?thesis by force
  next
    case False
    show ?thesis
    proof (cases "j = length pre")
      case True
      then show ?thesis using assms(1) by simp
    next
      case False
      with \<open>\<not> j < length pre\<close> have gt: "length pre < j" by simp
      then have "axs ! j = post ! (j - length pre - 1)"
        using assms(1) by (simp add: nth_append nth_Cons')
      moreover have "j - length pre - 1 < length post"
        using j gt assms(1) by simp
      ultimately have "axs ! j \<in> set post" by simp
      with assms(3) show ?thesis by blast
    qed
  qed
  moreover have "map f axs ! length pre = f a"
    using assms(1) by (simp add: nth_append)
  moreover have "map f axs ! j = f (axs ! j)"
    using j by (rule nth_map)
  ultimately show "map f axs ! length pre \<le> map f axs ! j"
    by simp
next
  fix j assume "j \<in> {..<length pre}"
  then have j: "j < length pre" by simp
  then have "axs ! j \<in> set pre" using assms(1) by (simp add: nth_append)
  with assms(2) have "f a < f (axs ! j)" by blast
  moreover have "map f axs ! length pre = f a"
    using assms(1) by (simp add: nth_append)
  moreover have "map f axs ! j = f (axs ! j)"
    using j assms(1) by (intro nth_map) simp
  ultimately show "map f axs ! length pre < map f axs ! j"
    by simp
qed

text \<open>What SATCollision returns, by cases on the loop.\<close>

lemma SATCollision_separated:
  assumes "\<exists>a \<in> set (testAxes obb1 obb2). axisSeparates obb1 obb2 a"
  shows "SATCollision g obb1 obb2 res = (False, res)"
proof -
  have "satLoop obb1 obb2 (testAxes obb1 obb2) 0 (FLT_MAX, g, - 1) = None"
    using assms by (simp add: satLoop_None_iff)
  then show ?thesis by (simp add: SATCollision_def)
qed

lemma SATCollision_True_iff:
  "fst (SATCollision g obb1 obb2 res) \<longleftrightarrow>
     (\<forall>a \<in> set (testAxes obb1 obb2). \<not> axisSeparates obb1 obb2 a)"
proof (cases "satLoop obb1 obb2 (testAxes obb1 obb2) 0 (FLT_MAX, g, - 1)")
  case None
  then show ?thesis
    using satLoop_None_iff [of obb1 obb2 "testAxes obb1 obb2" 0 "(FLT_MAX, g, - 1)"]
    by (simp add: SATCollision_def)
next
  case (Some st)
  then have "\<not> (\<exists>a \<in> set (testAxes obb1 obb2). axisSeparates obb1 obb2 a)"
    using satLoop_None_iff [of obb1 obb2 "testAxes obb1 obb2" 0 "(FLT_MAX, g, - 1)"]
    by simp
  then show ?thesis
    using Some by (simp add: SATCollision_def Let_def split: prod.splits)
qed

lemma SATCollision_no_small_overlap:
  assumes ret: "SATCollision g obb1 obb2 res = (True, r)"
    and big: "\<forall>a \<in> set (testAxes obb1 obb2). FLT_MAX \<le> axisOverlap obb1 obb2 a"
  shows "r = res\<lparr>collisionDetected := True, penetrationDepth := FLT_MAX, collisionNormal := g\<rparr>"
proof -
  obtain m' ax' t' where
    loop: "satLoop obb1 obb2 (testAxes obb1 obb2) 0 (FLT_MAX, g, - 1) = Some (m', ax', t')"
    using ret by (auto simp: SATCollision_def split: option.splits)
  from satLoop_Some_split [OF loop] big have "(m', ax', t') = (FLT_MAX, g, - 1)"
    by (elim disjE conjE exE) (simp, force)
  with loop ret show ?thesis
    by (simp add: SATCollision_def)
qed

lemma SATCollision_small_overlap:
  assumes ret: "SATCollision g obb1 obb2 res = (True, r)"
    and small: "\<exists>a \<in> set (testAxes obb1 obb2). axisOverlap obb1 obb2 a < FLT_MAX"
  shows "\<exists>pre ax post. testAxes obb1 obb2 = pre @ ax # post \<and>
           (\<forall>a \<in> set pre. axisOverlap obb1 obb2 ax < axisOverlap obb1 obb2 a) \<and>
           (\<forall>a \<in> set post. axisOverlap obb1 obb2 ax \<le> axisOverlap obb1 obb2 a) \<and>
           axisOverlap obb1 obb2 ax < FLT_MAX \<and>
           r = (if length pre \<le> 5
                then res\<lparr>collisionDetected := True,
                         penetrationDepth := axisOverlap obb1 obb2 ax,
                         collisionNormal := ax,
                         collisionType := ''vertex-face'',
                         contactPoint := vertexFaceCollision obb1 obb2\<rparr>
                else res\<lparr>collisionDetected := True,
                         penetrationDepth := axisOverlap obb1 obb2 ax,
                         collisionNormal := ax,
                         collisionType := ''edge-edge'',
                         contactPoint := edgeEdgeCollision obb1 obb2\<rparr>)"
proof -
  obtain m' ax' t' where
    loop: "satLoop obb1 obb2 (testAxes obb1 obb2) 0 (FLT_MAX, g, - 1) = Some (m', ax', t')"
    using ret by (auto simp: SATCollision_def split: option.splits)
  from satLoop_Some_split [OF loop] small
  obtain pre post where h: "testAxes obb1 obb2 = pre @ ax' # post" "t' = int (length pre)"
    "m' = axisOverlap obb1 obb2 ax'" "m' < FLT_MAX"
    "\<forall>a \<in> set pre. m' < axisOverlap obb1 obb2 a"
    "\<forall>a \<in> set post. m' \<le> axisOverlap obb1 obb2 a"
    by (elim disjE conjE exE) (force, simp)
  have "length (pre @ ax' # post) \<le> 15"
    using length_testAxes(2) [of obb1 obb2] h(1) by simp
  then have len: "length pre \<le> 14" by simp
  have "r = (if length pre \<le> 5
                then res\<lparr>collisionDetected := True,
                         penetrationDepth := axisOverlap obb1 obb2 ax',
                         collisionNormal := ax',
                         collisionType := ''vertex-face'',
                         contactPoint := vertexFaceCollision obb1 obb2\<rparr>
                else res\<lparr>collisionDetected := True,
                         penetrationDepth := axisOverlap obb1 obb2 ax',
                         collisionNormal := ax',
                         collisionType := ''edge-edge'',
                         contactPoint := edgeEdgeCollision obb1 obb2\<rparr>)"
    using ret loop h(2,3) len by (auto simp: SATCollision_def Let_def)
  with h show ?thesis by blast
qed

section \<open>Axis order, classification and the result record\<close>

lemma testAxes_unitAxes:
  assumes "axes obb1 = unitAxes" "axes obb2 = unitAxes"
  shows "testAxes obb1 obb2 =
      [Vec3 1 0 0, Vec3 0 1 0, Vec3 0 0 1, Vec3 1 0 0, Vec3 0 1 0, Vec3 0 0 1,
       Vec3 0 0 1, Vec3 0 (- 1) 0, Vec3 0 0 (- 1), Vec3 1 0 0, Vec3 0 1 0, Vec3 (- 1) 0 0]"
  by (simp add: testAxes_def crossAxes_def assms unitAxes_def glm_cross_def glm_length_def
      glm_dot_def glm_normalize_def EPS_def smul_def)

lemma isFirstMin_unique:
  assumes "isFirstMin ds k" "isFirstMin ds k'"
  shows "k = k'"
proof (rule ccontr)
  assume "k \<noteq> k'"
  then consider "k < k'" | "k' < k" by linarith
  then show False
  proof cases
    case 1
    from assms(2) 1 have "ds ! k' < ds ! k" by (simp add: isFirstMin_def)
    moreover from assms have "ds ! k \<le> ds ! k'" by (simp add: isFirstMin_def)
    ultimately show False by simp
  next
    case 2
    from assms(1) 2 have "ds ! k < ds ! k'" by (simp add: isFirstMin_def)
    moreover from assms have "ds ! k' \<le> ds ! k" by (simp add: isFirstMin_def)
    ultimately show False by simp
  qed
qed

text \<open>
  Claim C1, amended. \<open>SATCollision\<close> builds its candidate axes in the fixed order: the three
  axes of box1, the three axes of box2, then for each pair \<open>(i, j)\<close> in row-major order the
  cross product of box1's axis \<open>i\<close> with box2's axis \<open>j\<close>, dropped when its length is at
  most \<open>1e-6f\<close> and normalised otherwise. So the face axes are at indices 0 to 5 and at most
  9 edge axes follow. When a collision is reported and some candidate axis has an overlap
  below \<open>FLT_MAX\<close>, the normal and the depth are those of the first axis of minimum
  overlap, and the type is \<open>vertex-face\<close> exactly when that axis has index 0 to 5 and
  \<open>edge-edge\<close> exactly when it has index 6 or more. When no overlap is below \<open>FLT_MAX\<close>
  the type field keeps what the caller's record held.
\<close>

theorem C1_axis_order_and_classification:
  "take 6 (testAxes obb1 obb2) =
     [nth3 (axes obb1) 0, nth3 (axes obb1) 1, nth3 (axes obb1) 2,
      nth3 (axes obb2) 0, nth3 (axes obb2) 1, nth3 (axes obb2) 2] \<and>
   drop 6 (testAxes obb1 obb2) = edgeAxesSpec obb1 obb2 \<and>
   length (edgeAxesSpec obb1 obb2) \<le> 9 \<and>
   (SATCollision g obb1 obb2 res = (True, r) \<longrightarrow>
      (\<exists>a \<in> set (testAxes obb1 obb2). axisOverlap obb1 obb2 a < FLT_MAX) \<longrightarrow>
      (\<exists>k. isFirstMin (map (axisOverlap obb1 obb2) (testAxes obb1 obb2)) k \<and>
           collisionNormal r = testAxes obb1 obb2 ! k \<and>
           penetrationDepth r = axisOverlap obb1 obb2 (testAxes obb1 obb2 ! k)) \<and>
      (\<forall>k. isFirstMin (map (axisOverlap obb1 obb2) (testAxes obb1 obb2)) k \<longrightarrow>
           (collisionType r = ''vertex-face'' \<longleftrightarrow> k \<le> 5) \<and>
           (collisionType r = ''edge-edge'' \<longleftrightarrow> 6 \<le> k))) \<and>
   (SATCollision g obb1 obb2 res = (True, r) \<longrightarrow>
      (\<forall>a \<in> set (testAxes obb1 obb2). FLT_MAX \<le> axisOverlap obb1 obb2 a) \<longrightarrow>
      collisionType r = collisionType res)"
proof (intro conjI impI)
  show "take 6 (testAxes obb1 obb2) =
     [nth3 (axes obb1) 0, nth3 (axes obb1) 1, nth3 (axes obb1) 2,
      nth3 (axes obb2) 0, nth3 (axes obb2) 1, nth3 (axes obb2) 2]"
    by (simp add: testAxes_def)
  show "drop 6 (testAxes obb1 obb2) = edgeAxesSpec obb1 obb2"
    by (simp add: testAxes_def crossAxes_eq_spec)
  show "length (edgeAxesSpec obb1 obb2) \<le> 9"
    using length_crossAxes [of obb1 obb2] by (simp add: crossAxes_eq_spec)
next
  assume ret: "SATCollision g obb1 obb2 res = (True, r)"
    and big: "\<forall>a \<in> set (testAxes obb1 obb2). FLT_MAX \<le> axisOverlap obb1 obb2 a"
  from SATCollision_no_small_overlap [OF ret big]
  show "collisionType r = collisionType res" by simp
next
  let ?ds = "map (axisOverlap obb1 obb2) (testAxes obb1 obb2)"
  assume ret: "SATCollision g obb1 obb2 res = (True, r)"
    and small: "\<exists>a \<in> set (testAxes obb1 obb2). axisOverlap obb1 obb2 a < FLT_MAX"
  from SATCollision_small_overlap [OF ret small]
  obtain pre ax post where h: "testAxes obb1 obb2 = pre @ ax # post"
    "\<forall>a \<in> set pre. axisOverlap obb1 obb2 ax < axisOverlap obb1 obb2 a"
    "\<forall>a \<in> set post. axisOverlap obb1 obb2 ax \<le> axisOverlap obb1 obb2 a"
    and r: "r = (if length pre \<le> 5
                then res\<lparr>collisionDetected := True,
                         penetrationDepth := axisOverlap obb1 obb2 ax,
                         collisionNormal := ax,
                         collisionType := ''vertex-face'',
                         contactPoint := vertexFaceCollision obb1 obb2\<rparr>
                else res\<lparr>collisionDetected := True,
                         penetrationDepth := axisOverlap obb1 obb2 ax,
                         collisionNormal := ax,
                         collisionType := ''edge-edge'',
                         contactPoint := edgeEdgeCollision obb1 obb2\<rparr>)"
    by blast
  have first: "isFirstMin ?ds (length pre)"
    using h by (rule split_to_isFirstMin)
  have at: "testAxes obb1 obb2 ! length pre = ax"
    using h(1) by simp
  have props: "collisionNormal r = ax" "penetrationDepth r = axisOverlap obb1 obb2 ax"
    "collisionType r = ''vertex-face'' \<longleftrightarrow> length pre \<le> 5"
    "collisionType r = ''edge-edge'' \<longleftrightarrow> 6 \<le> length pre"
    using r by (simp_all split: if_splits) 
  show "\<exists>k. isFirstMin ?ds k \<and> collisionNormal r = testAxes obb1 obb2 ! k \<and>
           penetrationDepth r = axisOverlap obb1 obb2 (testAxes obb1 obb2 ! k)"
    using first at props(1,2) by (intro exI [of _ "length pre"]) simp
  show "\<forall>k. isFirstMin ?ds k \<longrightarrow>
           (collisionType r = ''vertex-face'' \<longleftrightarrow> k \<le> 5) \<and>
           (collisionType r = ''edge-edge'' \<longleftrightarrow> 6 \<le> k)"
  proof (intro allI impI)
    fix k assume "isFirstMin ?ds k"
    then have "k = length pre" using first by (rule isFirstMin_unique)
    with props(3,4) show "(collisionType r = ''vertex-face'' \<longleftrightarrow> k \<le> 5) \<and>
           (collisionType r = ''edge-edge'' \<longleftrightarrow> 6 \<le> k)" by simp
  qed
qed

lemma testAxes_hugeBox:
  "testAxes hugeBox hugeBox =
      [Vec3 1 0 0, Vec3 0 1 0, Vec3 0 0 1, Vec3 1 0 0, Vec3 0 1 0, Vec3 0 0 1,
       Vec3 0 0 1, Vec3 0 (- 1) 0, Vec3 0 0 (- 1), Vec3 1 0 0, Vec3 0 1 0, Vec3 (- 1) 0 0]"
  by (rule testAxes_unitAxes) (simp_all add: hugeBox_def)

lemma overlaps_hugeBox:
  "map (axisOverlap hugeBox hugeBox) (testAxes hugeBox hugeBox) = replicate 12 FLT_MAX"
  "\<forall>a \<in> set (testAxes hugeBox hugeBox). \<not> axisSeparates hugeBox hugeBox a"
  unfolding testAxes_hugeBox
  by (simp_all add: hugeBox_def axisOverlap_def axisSeparates_def projectOBB_def glm_dot_def
      unitAxes_def FLT_MAX_def numeral_eq_Suc)

lemma SATCollision_hugeBox:
  "SATCollision g hugeBox hugeBox res =
     (True, res\<lparr>collisionDetected := True, penetrationDepth := FLT_MAX, collisionNormal := g\<rparr>)"
proof -
  have "fst (SATCollision g hugeBox hugeBox res)"
    using overlaps_hugeBox(2) by (simp add: SATCollision_True_iff)
  then obtain r where ret: "SATCollision g hugeBox hugeBox res = (True, r)"
    by (cases "SATCollision g hugeBox hugeBox res") simp
  have "\<forall>d \<in> set (map (axisOverlap hugeBox hugeBox) (testAxes hugeBox hugeBox)). FLT_MAX \<le> d"
    unfolding overlaps_hugeBox(1) by simp
  then have "\<forall>a \<in> set (testAxes hugeBox hugeBox). FLT_MAX \<le> axisOverlap hugeBox hugeBox a"
    by simp
  from SATCollision_no_small_overlap [OF ret this] ret show ?thesis by simp
qed

text \<open>
  Claim C1 as stated fails on the huge cube against itself: a collision is reported, the
  first axis of minimum overlap has index 0, and the type of a fresh record is not
  \<open>vertex-face\<close> (the sentinel \<open>axisType = -1\<close> survives the loop, and both guarded
  branches are skipped).
\<close>

theorem C1_counterexample:
  "fst (SATCollision (Vec3 0 0 0) hugeBox hugeBox emptyResult) = True \<and>
   isFirstMin (map (axisOverlap hugeBox hugeBox) (testAxes hugeBox hugeBox)) 0 \<and>
   collisionType (snd (SATCollision (Vec3 0 0 0) hugeBox hugeBox emptyResult)) \<noteq> ''vertex-face''"
  unfolding overlaps_hugeBox(1) SATCollision_hugeBox
  by (simp add: isFirstMin_def emptyResult_def)

lemma testAxes_boxA_boxB:
  "testAxes boxA boxB =
      [Vec3 1 0 0, Vec3 0 1 0, Vec3 0 0 1, Vec3 1 0 0, Vec3 0 1 0, Vec3 0 0 1,
       Vec3 0 0 1, Vec3 0 (- 1) 0, Vec3 0 0 (- 1), Vec3 1 0 0, Vec3 0 1 0, Vec3 (- 1) 0 0]"
  by (rule testAxes_unitAxes) (simp_all add: boxA_def boxB_def)

lemma overlaps_boxA_boxB:
  "map (axisOverlap boxA boxB) (testAxes boxA boxB) =
     [1 / 2, 2, 2, 1 / 2, 2, 2, 2, 2, 2, 1 / 2, 2, 1 / 2]"
  unfolding testAxes_boxA_boxB
  by (simp add: boxA_def boxB_def axisOverlap_def projectOBB_def glm_dot_def unitAxes_def)

lemma not_separated_boxA_boxB:
  "\<forall>a \<in> set (testAxes boxA boxB). \<not> axisSeparates boxA boxB a"
  unfolding testAxes_boxA_boxB
  by (simp add: boxA_def boxB_def axisSeparates_def projectOBB_def glm_dot_def unitAxes_def)

lemma small_overlap_boxA_boxB:
  "\<exists>a \<in> set (testAxes boxA boxB). axisOverlap boxA boxB a < FLT_MAX"
proof -
  have "\<exists>d \<in> set (map (axisOverlap boxA boxB) (testAxes boxA boxB)). d < FLT_MAX"
    unfolding overlaps_boxA_boxB by (simp add: FLT_MAX_def)
  then show ?thesis by simp
qed

lemma firstMin_boxA_boxB:
  "isFirstMin (map (axisOverlap boxA boxB) (testAxes boxA boxB)) 0"
  unfolding overlaps_boxA_boxB by (simp add: isFirstMin_def lessThan_nat_numeral lessThan_Suc)

text \<open>The hypotheses of C1 hold for the example boxes A and B.\<close>

theorem C1_witness:
  "SATCollision (Vec3 0 0 0) boxA boxB emptyResult =
     (True, snd (SATCollision (Vec3 0 0 0) boxA boxB emptyResult)) \<and>
   (\<exists>a \<in> set (testAxes boxA boxB). axisOverlap boxA boxB a < FLT_MAX) \<and>
   isFirstMin (map (axisOverlap boxA boxB) (testAxes boxA boxB)) 0 \<and>
   collisionType (snd (SATCollision (Vec3 0 0 0) boxA boxB emptyResult)) = ''vertex-face'' \<and>
   collisionType (snd (SATCollision (Vec3 0 0 0) boxA boxB emptyResult)) \<noteq> ''edge-edge''"
proof -
  let ?r = "snd (SATCollision (Vec3 0 0 0) boxA boxB emptyResult)"
  have ret: "SATCollision (Vec3 0 0 0) boxA boxB emptyResult = (True, ?r)"
    by (simp add: SATCollision_boxA_boxB)
  from C1_axis_order_and_classification [of boxA boxB "Vec3 0 0 0" emptyResult ?r]
    ret small_overlap_boxA_boxB firstMin_boxA_boxB
  have "(collisionType ?r = ''vertex-face'' \<longleftrightarrow> (0::nat) \<le> 5) \<and>
        (collisionType ?r = ''edge-edge'' \<longleftrightarrow> 6 \<le> (0::nat))"
    by blast
  then show ?thesis
    using ret small_overlap_boxA_boxB firstMin_boxA_boxB by simp
qed

lemma SATCollision_depth:
  assumes "SATCollision g obb1 obb2 res = (True, r)"
  shows "penetrationDepth r =
           Min (insert FLT_MAX (axisOverlap obb1 obb2 ` set (testAxes obb1 obb2)))"
proof -
  obtain m' ax' t' where
    loop: "satLoop obb1 obb2 (testAxes obb1 obb2) 0 (FLT_MAX, g, - 1) = Some (m', ax', t')"
    using assms by (auto simp: SATCollision_def split: option.splits)
  have "penetrationDepth r = m'"
    using assms loop by (auto simp: SATCollision_def Let_def split: if_splits)
  with satLoop_depth [OF loop] show ?thesis by simp
qed

text \<open>
  Claim C2, amended. If some candidate axis separates the boxes, \<open>SATCollision\<close> returns
  false and the result record is exactly what it was. If none does, it returns true, sets
  the flag and sets the depth to the least overlap (capped at \<open>FLT_MAX\<close>); and when some
  overlap is below \<open>FLT_MAX\<close> it also sets the normal to a candidate axis of that overlap,
  and the type and the contact point to \<open>vertex-face\<close> with the result of
  \<open>vertexFaceCollision\<close> or to \<open>edge-edge\<close> with the result of \<open>edgeEdgeCollision\<close>.
\<close>

theorem C2_result_policy:
  "((\<exists>a \<in> set (testAxes obb1 obb2). axisSeparates obb1 obb2 a) \<longrightarrow>
      SATCollision g obb1 obb2 res = (False, res)) \<and>
   ((\<forall>a \<in> set (testAxes obb1 obb2). \<not> axisSeparates obb1 obb2 a) \<longrightarrow>
      (\<exists>r. SATCollision g obb1 obb2 res = (True, r) \<and>
           collisionDetected r \<and>
           penetrationDepth r =
             Min (insert FLT_MAX (axisOverlap obb1 obb2 ` set (testAxes obb1 obb2))) \<and>
           ((\<exists>a \<in> set (testAxes obb1 obb2). axisOverlap obb1 obb2 a < FLT_MAX) \<longrightarrow>
              collisionNormal r \<in> set (testAxes obb1 obb2) \<and>
              axisOverlap obb1 obb2 (collisionNormal r) = penetrationDepth r \<and>
              (collisionType r = ''vertex-face'' \<and>
                 contactPoint r = vertexFaceCollision obb1 obb2 \<or>
               collisionType r = ''edge-edge'' \<and>
                 contactPoint r = edgeEdgeCollision obb1 obb2))))"
proof (intro conjI impI)
  assume "\<exists>a \<in> set (testAxes obb1 obb2). axisSeparates obb1 obb2 a"
  then show "SATCollision g obb1 obb2 res = (False, res)"
    by (rule SATCollision_separated)
next
  assume "\<forall>a \<in> set (testAxes obb1 obb2). \<not> axisSeparates obb1 obb2 a"
  then have "fst (SATCollision g obb1 obb2 res)"
    by (simp add: SATCollision_True_iff)
  then obtain r where ret: "SATCollision g obb1 obb2 res = (True, r)"
    by (cases "SATCollision g obb1 obb2 res") simp
  have det: "collisionDetected r"
    using ret by (auto simp: SATCollision_def Let_def split: option.splits if_splits)
  have pop: "collisionNormal r \<in> set (testAxes obb1 obb2) \<and>
        axisOverlap obb1 obb2 (collisionNormal r) = penetrationDepth r \<and>
        (collisionType r = ''vertex-face'' \<and> contactPoint r = vertexFaceCollision obb1 obb2 \<or>
         collisionType r = ''edge-edge'' \<and> contactPoint r = edgeEdgeCollision obb1 obb2)"
    if small: "\<exists>a \<in> set (testAxes obb1 obb2). axisOverlap obb1 obb2 a < FLT_MAX"
  proof -
    from SATCollision_small_overlap [OF ret small]
    obtain pre ax post where h: "testAxes obb1 obb2 = pre @ ax # post"
      and r: "r = (if length pre \<le> 5
                then res\<lparr>collisionDetected := True,
                         penetrationDepth := axisOverlap obb1 obb2 ax,
                         collisionNormal := ax,
                         collisionType := ''vertex-face'',
                         contactPoint := vertexFaceCollision obb1 obb2\<rparr>
                else res\<lparr>collisionDetected := True,
                         penetrationDepth := axisOverlap obb1 obb2 ax,
                         collisionNormal := ax,
                         collisionType := ''edge-edge'',
                         contactPoint := edgeEdgeCollision obb1 obb2\<rparr>)"
      by blast
    have "ax \<in> set (testAxes obb1 obb2)" using h by simp
    then show ?thesis using r by (simp split: if_splits)
  qed
  show "\<exists>r. SATCollision g obb1 obb2 res = (True, r) \<and>
           collisionDetected r \<and>
           penetrationDepth r =
             Min (insert FLT_MAX (axisOverlap obb1 obb2 ` set (testAxes obb1 obb2))) \<and>
           ((\<exists>a \<in> set (testAxes obb1 obb2). axisOverlap obb1 obb2 a < FLT_MAX) \<longrightarrow>
              collisionNormal r \<in> set (testAxes obb1 obb2) \<and>
              axisOverlap obb1 obb2 (collisionNormal r) = penetrationDepth r \<and>
              (collisionType r = ''vertex-face'' \<and>
                 contactPoint r = vertexFaceCollision obb1 obb2 \<or>
               collisionType r = ''edge-edge'' \<and>
                 contactPoint r = edgeEdgeCollision obb1 obb2))"
    using ret det SATCollision_depth [OF ret] pop by blast
qed

lemma separated_boxA_boxC:
  "\<exists>a \<in> set (testAxes boxA boxC). axisSeparates boxA boxC a"
proof -
  have "testAxes boxA boxC =
      [Vec3 1 0 0, Vec3 0 1 0, Vec3 0 0 1, Vec3 1 0 0, Vec3 0 1 0, Vec3 0 0 1,
       Vec3 0 0 1, Vec3 0 (- 1) 0, Vec3 0 0 (- 1), Vec3 1 0 0, Vec3 0 1 0, Vec3 (- 1) 0 0]"
    by (rule testAxes_unitAxes) (simp_all add: boxA_def boxC_def)
  moreover have "axisSeparates boxA boxC (Vec3 1 0 0)"
    by (simp add: boxA_def boxC_def axisSeparates_def projectOBB_def glm_dot_def unitAxes_def)
  ultimately show ?thesis by simp
qed

text \<open>
  Both hypotheses of C2 are met: boxes A and C are separated along \<open>x\<close>, boxes A and B
  are not, and a used record comes back untouched or with its type overwritten.
\<close>

theorem C2_witness:
  "(\<exists>a \<in> set (testAxes boxA boxC). axisSeparates boxA boxC a) \<and>
   SATCollision (Vec3 0 0 0) boxA boxC staleResult = (False, staleResult) \<and>
   (\<exists>a \<in> set (testAxes boxA boxB). axisOverlap boxA boxB a < FLT_MAX) \<and>
   fst (SATCollision (Vec3 0 0 0) boxA boxB staleResult) \<and>
   collisionDetected (snd (SATCollision (Vec3 0 0 0) boxA boxB staleResult)) \<and>
   collisionNormal (snd (SATCollision (Vec3 0 0 0) boxA boxB staleResult))
     \<in> set (testAxes boxA boxB) \<and>
   collisionType (snd (SATCollision (Vec3 0 0 0) boxA boxB staleResult)) \<noteq> ''stale''"
proof -
  from C2_result_policy [of boxA boxC "Vec3 0 0 0" staleResult] separated_boxA_boxC
  have a: "SATCollision (Vec3 0 0 0) boxA boxC staleResult = (False, staleResult)"
    by blast
  from C2_result_policy [of boxA boxB "Vec3 0 0 0" staleResult]
    not_separated_boxA_boxB small_overlap_boxA_boxB
  obtain r where r: "SATCollision (Vec3 0 0 0) boxA boxB staleResult = (True, r)"
    "collisionDetected r" "collisionNormal r \<in> set (testAxes boxA boxB)"
    "collisionType r = ''vertex-face'' \<or> collisionType r = ''edge-edge''"
    by blast
  from r(4) have "collisionType r \<noteq> ''stale''" by auto
  with a r separated_boxA_boxC small_overlap_boxA_boxB show ?thesis by simp
qed

text \<open>
  Claim C2 as stated fails on the huge cube against itself: no axis separates, the call
  returns true, and the contact point and the type are still the caller's, while the
  normal is the uninitialised local.
\<close>

theorem C2_counterexample:
  "\<not> (\<exists>a \<in> set (testAxes hugeBox hugeBox). axisSeparates hugeBox hugeBox a) \<and>
   SATCollision (Vec3 9 9 9) hugeBox hugeBox staleResult =
     (True, \<lparr>collisionDetected = True, collisionNormal = Vec3 9 9 9,
             penetrationDepth = FLT_MAX, contactPoint = Vec3 7 7 7,
             collisionType = ''stale''\<rparr>)"
  using overlaps_hugeBox(2) by (simp add: SATCollision_hugeBox staleResult_def)

text \<open>
  Claim C5. For every box and every axis (of unit length or not), \<open>projectOBB\<close> returns
  the interval \<open>[center . axis - support, center . axis + support]\<close> with
  \<open>support = halfExtents.x |axes[0] . axis| + halfExtents.y |axes[1] . axis| +
  halfExtents.z |axes[2] . axis|\<close>. \<open>overlapOnAxis\<close> returns false exactly when one
  projected interval is wholly left of the other, leaving its out-parameter alone;
  otherwise it returns true with depth \<open>min(max1, max2) - max(min1, min2)\<close>.
\<close>

theorem C5_projection_and_overlap:
  "projectOBB obb axis =
     (glm_dot (center obb) axis -
        (vx (halfExtents obb) * \<bar>glm_dot (nth3 (axes obb) 0) axis\<bar> +
         vy (halfExtents obb) * \<bar>glm_dot (nth3 (axes obb) 1) axis\<bar> +
         vz (halfExtents obb) * \<bar>glm_dot (nth3 (axes obb) 2) axis\<bar>),
      glm_dot (center obb) axis +
        (vx (halfExtents obb) * \<bar>glm_dot (nth3 (axes obb) 0) axis\<bar> +
         vy (halfExtents obb) * \<bar>glm_dot (nth3 (axes obb) 1) axis\<bar> +
         vz (halfExtents obb) * \<bar>glm_dot (nth3 (axes obb) 2) axis\<bar>)) \<and>
   (fst (overlapOnAxis obb1 obb2 axis d) \<longleftrightarrow>
      \<not> (snd (projectOBB obb1 axis) < fst (projectOBB obb2 axis) \<or>
         snd (projectOBB obb2 axis) < fst (projectOBB obb1 axis))) \<and>
   (fst (overlapOnAxis obb1 obb2 axis d) \<longrightarrow>
      snd (overlapOnAxis obb1 obb2 axis d) =
        min (snd (projectOBB obb1 axis)) (snd (projectOBB obb2 axis)) -
        max (fst (projectOBB obb1 axis)) (fst (projectOBB obb2 axis))) \<and>
   (\<not> fst (overlapOnAxis obb1 obb2 axis d) \<longrightarrow>
      snd (overlapOnAxis obb1 obb2 axis d) = d)"
proof (intro conjI)
  show "projectOBB obb axis =
     (glm_dot (center obb) axis -
        (vx (halfExtents obb) * \<bar>glm_dot (nth3 (axes obb) 0) axis\<bar> +
         vy (halfExtents obb) * \<bar>glm_dot (nth3 (axes obb) 1) axis\<bar> +
         vz (halfExtents obb) * \<bar>glm_dot (nth3 (axes obb) 2) axis\<bar>),
      glm_dot (center obb) axis +
        (vx (halfExtents obb) * \<bar>glm_dot (nth3 (axes obb) 0) axis\<bar> +
         vy (halfExtents obb) * \<bar>glm_dot (nth3 (axes obb) 1) axis\<bar> +
         vz (halfExtents obb) * \<bar>glm_dot (nth3 (axes obb) 2) axis\<bar>))"
    by (simp add: projectOBB_def Let_def)
qed (simp_all add: overlapOnAxis_eq axisSeparates_def axisOverlap_def)

text \<open>C5 on the example boxes: A and B overlap along \<open>x\<close> by \<open>0.5\<close>, A and C do not.\<close>

theorem C5_witness:
  "fst (overlapOnAxis boxA boxB (Vec3 1 0 0) 7) \<and>
   snd (overlapOnAxis boxA boxB (Vec3 1 0 0) 7) = 1 / 2 \<and>
   projectOBB boxA (Vec3 1 0 0) = (- 1, 1) \<and>
   projectOBB boxB (Vec3 1 0 0) = (1 / 2, 5 / 2) \<and>
   projectOBB boxC (Vec3 1 0 0) = (2, 4) \<and>
   \<not> fst (overlapOnAxis boxA boxC (Vec3 1 0 0) 7) \<and>
   snd (overlapOnAxis boxA boxC (Vec3 1 0 0) 7) = 7"
proof -
  have pA: "projectOBB boxA (Vec3 1 0 0) = (- 1, 1)"
    using C5_projection_and_overlap [of boxA "Vec3 1 0 0"]
    by (simp add: boxA_def unitAxes_def glm_dot_def)
  have pB: "projectOBB boxB (Vec3 1 0 0) = (1 / 2, 5 / 2)"
    using C5_projection_and_overlap [of boxB "Vec3 1 0 0"]
    by (simp add: boxB_def unitAxes_def glm_dot_def)
  have pC: "projectOBB boxC (Vec3 1 0 0) = (2, 4)"
    using C5_projection_and_overlap [of boxC "Vec3 1 0 0"]
    by (simp add: boxC_def unitAxes_def glm_dot_def)
  from C5_projection_and_overlap [of boxA "Vec3 1 0 0" boxA boxB 7] pA pB
  have ab: "fst (overlapOnAxis boxA boxB (Vec3 1 0 0) 7)"
    "snd (overlapOnAxis boxA boxB (Vec3 1 0 0) 7) = 1 / 2"
    by simp_all
  from C5_projection_and_overlap [of boxA "Vec3 1 0 0" boxA boxC 7] pA pC
  have ac: "\<not> fst (overlapOnAxis boxA boxC (Vec3 1 0 0) 7)"
    "snd (overlapOnAxis boxA boxC (Vec3 1 0 0) 7) = 7"
    by simp_all
  from pA pB pC ab ac show ?thesis by simp
qed

lemma glm_dot_linear:
  "glm_dot (vadd a b) n = glm_dot a n + glm_dot b n"
  "glm_dot (vsub a b) n = glm_dot a n - glm_dot b n"
  "glm_dot (smul k a) n = k * glm_dot a n"
  by (simp_all add: glm_dot_def vadd_def vsub_def smul_def algebra_simps)

lemma min8_abs:
  fixes c X Y Z :: real
  shows "Min {c + X + Y + Z, c + X + Y - Z, c + X - Y + Z, c + X - Y - Z,
              c - X + Y + Z, c - X + Y - Z, c - X - Y + Z, c - X - Y - Z} =
         c - (\<bar>X\<bar> + \<bar>Y\<bar> + \<bar>Z\<bar>)"
  by (rule Min_eqI) (auto simp: abs_if)

lemma max8_abs:
  fixes c X Y Z :: real
  shows "Max {c + X + Y + Z, c + X + Y - Z, c + X - Y + Z, c + X - Y - Z,
              c - X + Y + Z, c - X + Y - Z, c - X - Y + Z, c - X - Y - Z} =
         c + (\<bar>X\<bar> + \<bar>Y\<bar> + \<bar>Z\<bar>)"
  by (rule Max_eqI) (auto simp: abs_if)

text \<open>
  The interval of \<open>projectOBB\<close> is the exact range of the box along the axis: for
  non-negative half-extents its ends are the least and the greatest projection of the 8
  vertices.
\<close>

lemma projectOBB_vertex_range:
  assumes "0 \<le> vx (halfExtents obb)" "0 \<le> vy (halfExtents obb)" "0 \<le> vz (halfExtents obb)"
  shows "fst (projectOBB obb n) = Min ((\<lambda>v. glm_dot v n) ` set (getVertices obb))"
    and "snd (projectOBB obb n) = Max ((\<lambda>v. glm_dot v n) ` set (getVertices obb))"
proof -
  let ?c = "glm_dot (center obb) n"
  let ?X = "vx (halfExtents obb) * glm_dot (nth3 (axes obb) 0) n"
  let ?Y = "vy (halfExtents obb) * glm_dot (nth3 (axes obb) 1) n"
  let ?Z = "vz (halfExtents obb) * glm_dot (nth3 (axes obb) 2) n"
  have img: "(\<lambda>v. glm_dot v n) ` set (getVertices obb) =
      {?c + ?X + ?Y + ?Z, ?c + ?X + ?Y - ?Z, ?c + ?X - ?Y + ?Z, ?c + ?X - ?Y - ?Z,
       ?c - ?X + ?Y + ?Z, ?c - ?X + ?Y - ?Z, ?c - ?X - ?Y + ?Z, ?c - ?X - ?Y - ?Z}"
    by (simp add: getVertices_def Let_def glm_dot_linear)
  have ab: "\<bar>?X\<bar> = vx (halfExtents obb) * \<bar>glm_dot (nth3 (axes obb) 0) n\<bar>"
    "\<bar>?Y\<bar> = vy (halfExtents obb) * \<bar>glm_dot (nth3 (axes obb) 1) n\<bar>"
    "\<bar>?Z\<bar> = vz (halfExtents obb) * \<bar>glm_dot (nth3 (axes obb) 2) n\<bar>"
    using assms by (simp_all add: abs_mult)
  show "fst (projectOBB obb n) = Min ((\<lambda>v. glm_dot v n) ` set (getVertices obb))"
    unfolding img min8_abs ab by (simp add: projectOBB_def Let_def)
  show "snd (projectOBB obb n) = Max ((\<lambda>v. glm_dot v n) ` set (getVertices obb))"
    unfolding img max8_abs ab by (simp add: projectOBB_def Let_def)
qed

section \<open>Swapping the boxes\<close>

lemma glm_dot_vneg: "glm_dot a (vneg n) = - glm_dot a n"
  by (simp add: glm_dot_def vneg_def)

lemma glm_cross_swap: "glm_cross b a = vneg (glm_cross a b)"
  by (simp add: glm_cross_def vneg_def mult.commute)

lemma glm_length_vneg: "glm_length (vneg v) = glm_length v"
  by (simp add: glm_length_def glm_dot_def vneg_def)

lemma glm_normalize_vneg: "glm_normalize (vneg v) = vneg (glm_normalize v)"
  by (simp add: glm_normalize_def glm_dot_def vneg_def smul_def)

lemma projectOBB_vneg:
  "projectOBB obb (vneg n) = (- snd (projectOBB obb n), - fst (projectOBB obb n))"
  by (simp add: projectOBB_def Let_def glm_dot_vneg)

lemma axisSeparates_vneg: "axisSeparates obb1 obb2 (vneg n) = axisSeparates obb1 obb2 n"
  by (auto simp: axisSeparates_def projectOBB_vneg)

lemma axisOverlap_vneg: "axisOverlap obb1 obb2 (vneg n) = axisOverlap obb1 obb2 n"
  by (simp add: axisOverlap_def projectOBB_vneg min_def max_def)

lemma axisSeparates_swap: "axisSeparates obb2 obb1 n = axisSeparates obb1 obb2 n"
  by (auto simp: axisSeparates_def)

lemma axisOverlap_swap: "axisOverlap obb2 obb1 n = axisOverlap obb1 obb2 n"
  by (simp add: axisOverlap_def min.commute max.commute)

lemma set_crossAxes_swap: "set (crossAxes obb2 obb1) = vneg ` set (crossAxes obb1 obb2)"
proof -
  let ?c = "\<lambda>(i, j). glm_cross (nth3 (axes obb1) i) (nth3 (axes obb2) j)"
  let ?c' = "\<lambda>(i, j). glm_cross (nth3 (axes obb2) i) (nth3 (axes obb1) j)"
  have swap: "prod.swap ` set axisPairs = set axisPairs"
    by (auto simp: axisPairs_def)
  have "?c' ` set axisPairs = (vneg \<circ> ?c \<circ> prod.swap) ` set axisPairs"
    by (intro image_cong refl) (auto simp: glm_cross_swap [of "nth3 (axes obb2) _"])
  also have "\<dots> = vneg ` ?c ` set axisPairs"
    by (simp only: image_comp [symmetric] swap)
  finally have img: "?c' ` set axisPairs = vneg ` ?c ` set axisPairs" .
  have "set (crossAxes obb2 obb1) =
      glm_normalize ` {c \<in> ?c' ` set axisPairs. \<not> glm_length c \<le> EPS}"
    by (simp add: crossAxes_eq_spec edgeAxesSpec_def)
  also have "\<dots> = glm_normalize ` {c \<in> vneg ` ?c ` set axisPairs. \<not> glm_length c \<le> EPS}"
    by (simp only: img)
  also have "\<dots> = glm_normalize ` vneg ` {c \<in> ?c ` set axisPairs. \<not> glm_length c \<le> EPS}"
    by (rule arg_cong [where f = "image glm_normalize"]) (auto simp: glm_length_vneg)
  also have "\<dots> = vneg ` glm_normalize ` {c \<in> ?c ` set axisPairs. \<not> glm_length c \<le> EPS}"
    by (simp add: image_image glm_normalize_vneg)
  also have "glm_normalize ` {c \<in> ?c ` set axisPairs. \<not> glm_length c \<le> EPS} =
      set (crossAxes obb1 obb2)"
    by (simp add: crossAxes_eq_spec edgeAxesSpec_def)
  finally show ?thesis .
qed

lemma set_testAxes:
  "set (testAxes obb1 obb2) =
     {nth3 (axes obb1) 0, nth3 (axes obb1) 1, nth3 (axes obb1) 2,
      nth3 (axes obb2) 0, nth3 (axes obb2) 1, nth3 (axes obb2) 2} \<union> set (crossAxes obb1 obb2)"
  by (simp add: testAxes_def)

lemma separated_swap:
  "(\<exists>a \<in> set (testAxes obb2 obb1). axisSeparates obb2 obb1 a) \<longleftrightarrow>
   (\<exists>a \<in> set (testAxes obb1 obb2). axisSeparates obb1 obb2 a)"
  unfolding set_testAxes set_crossAxes_swap [of obb2 obb1] bex_Un
  by (auto simp: axisSeparates_swap [of obb2 obb1] axisSeparates_vneg)

lemma overlaps_swap:
  "axisOverlap obb2 obb1 ` set (testAxes obb2 obb1) =
   axisOverlap obb1 obb2 ` set (testAxes obb1 obb2)"
proof -
  have "axisOverlap obb2 obb1 ` set (testAxes obb2 obb1) =
        axisOverlap obb1 obb2 ` set (testAxes obb2 obb1)"
    by (intro image_cong refl) (simp add: axisOverlap_swap [of obb2 obb1])
  also have "\<dots> = axisOverlap obb1 obb2 ` set (testAxes obb1 obb2)"
    unfolding set_testAxes set_crossAxes_swap [of obb2 obb1] image_Un image_image
      axisOverlap_vneg
    by auto
  finally show ?thesis .
qed

text \<open>
  In exact arithmetic \<open>SATCollision\<close> with the arguments swapped returns the same
  boolean, and when it is true the same penetration depth, whatever the two result records
  and uninitialised locals held. (In binary32 a projected interval end can be NaN, for
  which \<open>std::min\<close> and \<open>std::max\<close> depend on the order of their arguments.)
\<close>

lemma swap_symmetry_exact:
  "fst (SATCollision g obb1 obb2 res) = fst (SATCollision g' obb2 obb1 res') \<and>
   (fst (SATCollision g obb1 obb2 res) \<longrightarrow>
      penetrationDepth (snd (SATCollision g obb1 obb2 res)) =
      penetrationDepth (snd (SATCollision g' obb2 obb1 res')))"
proof (intro conjI impI)
  show flag: "fst (SATCollision g obb1 obb2 res) = fst (SATCollision g' obb2 obb1 res')"
    unfolding SATCollision_True_iff using separated_swap [of obb2 obb1] by blast
  assume t: "fst (SATCollision g obb1 obb2 res)"
  then have r1: "SATCollision g obb1 obb2 res = (True, snd (SATCollision g obb1 obb2 res))"
    by (cases "SATCollision g obb1 obb2 res") simp
  from t flag have r2: "SATCollision g' obb2 obb1 res' = (True, snd (SATCollision g' obb2 obb1 res'))"
    by (cases "SATCollision g' obb2 obb1 res'") simp
  show "penetrationDepth (snd (SATCollision g obb1 obb2 res)) =
      penetrationDepth (snd (SATCollision g' obb2 obb1 res'))"
    unfolding SATCollision_depth [OF r1] SATCollision_depth [OF r2] overlaps_swap [of obb2 obb1]
    by (rule refl)
qed

text \<open>On the example boxes both orders report a collision of depth \<open>0.5\<close>.\<close>

lemma swap_symmetry_example:
  "fst (SATCollision (Vec3 0 0 0) boxA boxB emptyResult) \<and>
   fst (SATCollision (Vec3 1 1 1) boxB boxA staleResult) \<and>
   penetrationDepth (snd (SATCollision (Vec3 0 0 0) boxA boxB emptyResult)) = 1 / 2 \<and>
   penetrationDepth (snd (SATCollision (Vec3 1 1 1) boxB boxA staleResult)) = 1 / 2"
proof -
  have a: "fst (SATCollision (Vec3 0 0 0) boxA boxB emptyResult)"
    "penetrationDepth (snd (SATCollision (Vec3 0 0 0) boxA boxB emptyResult)) = 1 / 2"
    by (simp_all add: SATCollision_boxA_boxB)
  from swap_symmetry_exact [of "Vec3 0 0 0" boxA boxB emptyResult "Vec3 1 1 1" staleResult] a
  show ?thesis by simp
qed

section \<open>Touching boxes\<close>

text \<open>Intervals of boxes with non-negative half-extents are well-formed.\<close>

lemma projectOBB_ordered:
  assumes "0 \<le> vx (halfExtents obb)" "0 \<le> vy (halfExtents obb)" "0 \<le> vz (halfExtents obb)"
  shows "fst (projectOBB obb n) \<le> snd (projectOBB obb n)"
proof -
  have "0 \<le> vx (halfExtents obb) * \<bar>glm_dot (nth3 (axes obb) 0) n\<bar>"
       "0 \<le> vy (halfExtents obb) * \<bar>glm_dot (nth3 (axes obb) 1) n\<bar>"
       "0 \<le> vz (halfExtents obb) * \<bar>glm_dot (nth3 (axes obb) 2) n\<bar>"
    using assms by simp_all
  then show ?thesis by (simp add: projectOBB_def Let_def)
qed

text \<open>
  In exact arithmetic: two boxes (half-extents non-negative, as the data model requires) whose
  projected intervals share a boundary value on some candidate axis, the upper end of
  one being the lower end of the other, and that no candidate axis separates:
  \<open>SATCollision\<close> returns true and the reported penetration depth is \<open>0\<close>.
\<close>

lemma touching_depth_zero_exact:
  assumes h1: "0 \<le> vx (halfExtents obb1) \<and> 0 \<le> vy (halfExtents obb1) \<and> 0 \<le> vz (halfExtents obb1)"
    and h2: "0 \<le> vx (halfExtents obb2) \<and> 0 \<le> vy (halfExtents obb2) \<and> 0 \<le> vz (halfExtents obb2)"
    and nosep: "\<forall>a \<in> set (testAxes obb1 obb2). \<not> axisSeparates obb1 obb2 a"
    and touch: "\<exists>a \<in> set (testAxes obb1 obb2).
        snd (projectOBB obb1 a) = fst (projectOBB obb2 a) \<or>
        snd (projectOBB obb2 a) = fst (projectOBB obb1 a)"
  shows "fst (SATCollision g obb1 obb2 res) = True \<and>
         penetrationDepth (snd (SATCollision g obb1 obb2 res)) = 0"
proof -
  have t: "fst (SATCollision g obb1 obb2 res)"
    using nosep by (simp add: SATCollision_True_iff)
  then have ret: "SATCollision g obb1 obb2 res = (True, snd (SATCollision g obb1 obb2 res))"
    by (cases "SATCollision g obb1 obb2 res") simp
  let ?S = "insert FLT_MAX (axisOverlap obb1 obb2 ` set (testAxes obb1 obb2))"
  have ord1: "fst (projectOBB obb1 n) \<le> snd (projectOBB obb1 n)" for n
    using h1 by (intro projectOBB_ordered) simp_all
  have ord2: "fst (projectOBB obb2 n) \<le> snd (projectOBB obb2 n)" for n
    using h2 by (intro projectOBB_ordered) simp_all
  have nonneg: "0 \<le> axisOverlap obb1 obb2 a" if "a \<in> set (testAxes obb1 obb2)" for a
    using nosep that ord1 [of a] ord2 [of a]
    by (auto simp: axisSeparates_def axisOverlap_def min_def max_def)
  from touch obtain a where a: "a \<in> set (testAxes obb1 obb2)"
    and eq: "snd (projectOBB obb1 a) = fst (projectOBB obb2 a) \<or>
             snd (projectOBB obb2 a) = fst (projectOBB obb1 a)"
    by blast
  have zero: "axisOverlap obb1 obb2 a = 0"
    using eq ord1 [of a] ord2 [of a] by (auto simp: axisOverlap_def min_def max_def)
  have "Min ?S = 0"
  proof (rule Min_eqI)
    show "finite ?S" by simp
    show "0 \<in> ?S" using a zero by force
    fix y assume "y \<in> ?S"
    then show "0 \<le> y" using nonneg by (auto simp: FLT_MAX_def)
  qed
  with SATCollision_depth [OF ret] t show ?thesis by simp
qed

lemma testAxes_boxA_boxD:
  "testAxes boxA boxD =
      [Vec3 1 0 0, Vec3 0 1 0, Vec3 0 0 1, Vec3 1 0 0, Vec3 0 1 0, Vec3 0 0 1,
       Vec3 0 0 1, Vec3 0 (- 1) 0, Vec3 0 0 (- 1), Vec3 1 0 0, Vec3 0 1 0, Vec3 (- 1) 0 0]"
  by (rule testAxes_unitAxes) (simp_all add: boxA_def boxD_def)

text \<open>Boxes A and D, which touch on the plane \<open>x = 1\<close>.\<close>

lemma touching_depth_zero_example:
  "0 \<le> vx (halfExtents boxA) \<and> 0 \<le> vy (halfExtents boxA) \<and> 0 \<le> vz (halfExtents boxA) \<and>
   0 \<le> vx (halfExtents boxD) \<and> 0 \<le> vy (halfExtents boxD) \<and> 0 \<le> vz (halfExtents boxD) \<and>
   \<not> (\<exists>a \<in> set (testAxes boxA boxD). axisSeparates boxA boxD a) \<and>
   Vec3 1 0 0 \<in> set (testAxes boxA boxD) \<and>
   snd (projectOBB boxA (Vec3 1 0 0)) = 1 \<and> fst (projectOBB boxD (Vec3 1 0 0)) = 1 \<and>
   fst (SATCollision (Vec3 0 0 0) boxA boxD emptyResult) = True \<and>
   penetrationDepth (snd (SATCollision (Vec3 0 0 0) boxA boxD emptyResult)) = 0"
proof -
  have h1: "0 \<le> vx (halfExtents boxA) \<and> 0 \<le> vy (halfExtents boxA) \<and> 0 \<le> vz (halfExtents boxA)"
    by (simp add: boxA_def)
  have h2: "0 \<le> vx (halfExtents boxD) \<and> 0 \<le> vy (halfExtents boxD) \<and> 0 \<le> vz (halfExtents boxD)"
    by (simp add: boxD_def)
  have nosep: "\<forall>a \<in> set (testAxes boxA boxD). \<not> axisSeparates boxA boxD a"
    unfolding testAxes_boxA_boxD
    by (simp add: boxA_def boxD_def axisSeparates_def projectOBB_def glm_dot_def unitAxes_def)
  have mem: "Vec3 1 0 0 \<in> set (testAxes boxA boxD)"
    by (simp add: testAxes_boxA_boxD)
  have p: "snd (projectOBB boxA (Vec3 1 0 0)) = 1" "fst (projectOBB boxD (Vec3 1 0 0)) = 1"
    by (simp_all add: boxA_def boxD_def projectOBB_def glm_dot_def unitAxes_def)
  have touch: "\<exists>a \<in> set (testAxes boxA boxD).
        snd (projectOBB boxA a) = fst (projectOBB boxD a) \<or>
        snd (projectOBB boxD a) = fst (projectOBB boxA a)"
    using mem p by (intro bexI [of _ "Vec3 1 0 0"]) simp_all
  from touching_depth_zero_exact [OF h1 h2 nosep touch, of "Vec3 0 0 0" emptyResult]
    h1 h2 nosep mem p
  show ?thesis by simp
qed

section \<open>Loops that keep a strict minimum\<close>

lemma fold_keep_min:
  fixes step :: "'a \<Rightarrow> 's \<Rightarrow> 's" and d :: "'a \<Rightarrow> real" and key :: "'s \<Rightarrow> real"
  assumes step: "\<And>x st. step x st = (if P x \<and> d x < key st then mk x else st)"
    and key: "\<And>x. key (mk x) = d x"
  shows "fold step xs st = st \<and> (\<forall>x \<in> set xs. P x \<longrightarrow> key st \<le> d x) \<or>
         (\<exists>x \<in> set xs. P x \<and> fold step xs st = mk x \<and> d x < key st \<and>
            (\<forall>y \<in> set xs. P y \<longrightarrow> d x \<le> d y))"
proof (induction xs arbitrary: st)
  case Nil
  show ?case by simp
next
  case (Cons x xs)
  show ?case
  proof (cases "P x \<and> d x < key st")
    case True
    then have s: "step x st = mk x" by (simp add: step)
    from Cons.IH [of "mk x"] show ?thesis
    proof (elim disjE conjE bexE)
      assume "fold step xs (mk x) = mk x" "\<forall>y \<in> set xs. P y \<longrightarrow> key (mk x) \<le> d y"
      then have "P x \<and> fold step (x # xs) st = mk x \<and> d x < key st \<and>
            (\<forall>y \<in> set (x # xs). P y \<longrightarrow> d x \<le> d y)"
        using True s by (simp add: key)
      then show ?thesis by (intro disjI2 bexI [of _ x]) simp_all
    next
      fix y assume y: "y \<in> set xs" "P y" "fold step xs (mk x) = mk y" "d y < key (mk x)"
        "\<forall>z \<in> set xs. P z \<longrightarrow> d y \<le> d z"
      then have "P y \<and> fold step (x # xs) st = mk y \<and> d y < key st \<and>
            (\<forall>z \<in> set (x # xs). P z \<longrightarrow> d y \<le> d z)"
        using True s by (simp add: key)
      with y(1) show ?thesis by (intro disjI2 bexI [of _ y]) simp_all
    qed
  next
    case False
    then have s: "step x st = st" unfolding step by (simp only: if_False)
    from Cons.IH [of st] show ?thesis
    proof (elim disjE conjE bexE)
      assume "fold step xs st = st" "\<forall>y \<in> set xs. P y \<longrightarrow> key st \<le> d y"
      then show ?thesis using False s by auto
    next
      fix y assume y: "y \<in> set xs" "P y" "fold step xs st = mk y" "d y < key st"
        "\<forall>z \<in> set xs. P z \<longrightarrow> d y \<le> d z"
      then have "P y \<and> fold step (x # xs) st = mk y \<and> d y < key st \<and>
            (\<forall>z \<in> set (x # xs). P z \<longrightarrow> d y \<le> d z)"
        using False s by auto
      with y(1) show ?thesis by (intro disjI2 bexI [of _ y]) simp_all
    qed
  qed
qed

section \<open>Vertex-face contact recovery\<close>

lemma vfStep_eq:
  "vfStep obb vertex i st =
     (if vfCandidate obb vertex i \<and> vfDistance obb vertex i < snd st
      then (vertex, vfDistance obb vertex i) else st)"
  by (simp add: vfStep_def vfCandidate_def vfDistance_def Let_def)

lemma vfPass_as_fold:
  "vfPass obb vs st =
     fold (\<lambda>(obb, vertex, i). vfStep obb vertex i)
       (concat (map (\<lambda>vertex. map (\<lambda>i. (obb, vertex, i)) [0, 1, 2]) vs)) st"
  unfolding vfPass_def by (induction vs arbitrary: st) simp_all

lemma vertexFaceCollision_as_fold:
  "vertexFaceCollision obb1 obb2 =
     fst (fold (\<lambda>(obb, vertex, i). vfStep obb vertex i) (vfTests obb1 obb2) (Vec3 0 0 0, FLT_MAX))"
  by (simp add: vertexFaceCollision_def Let_def vfPass_as_fold vfTests_def)

lemma set_vfTests:
  "(obb, v, i) \<in> set (vfTests obb1 obb2) \<longleftrightarrow>
     i \<in> {0, 1, 2} \<and> (obb = obb2 \<and> v \<in> set (getVertices obb1) \<or>
                         obb = obb1 \<and> v \<in> set (getVertices obb2))"
  by (auto simp: vfTests_def)

lemma vertexFaceCollision_cases:
  "vertexFaceCollision obb1 obb2 = Vec3 0 0 0 \<and>
     (\<forall>v d. isContactCandidate obb1 obb2 v d \<longrightarrow> FLT_MAX \<le> d) \<or>
   (\<exists>d. isContactCandidate obb1 obb2 (vertexFaceCollision obb1 obb2) d \<and> d < FLT_MAX \<and>
      (\<forall>v' d'. isContactCandidate obb1 obb2 v' d' \<longrightarrow> d \<le> d'))"
proof -
  let ?step = "\<lambda>(obb, vertex, i). vfStep obb vertex i"
  let ?P = "\<lambda>(obb, vertex, i). vfCandidate obb vertex i"
  let ?d = "\<lambda>(obb, vertex, i). vfDistance obb vertex i"
  let ?mk = "\<lambda>(obb, vertex, i). (vertex, vfDistance obb vertex i)"
  let ?ts = "vfTests obb1 obb2"
  let ?st = "(Vec3 0 0 0, FLT_MAX)"
  have cand_iff: "isContactCandidate obb1 obb2 v d \<longleftrightarrow>
      (\<exists>x \<in> set ?ts. ?P x \<and> fst (snd x) = v \<and> ?d x = d)" for v d
  proof -
    have "(\<exists>x \<in> set ?ts. ?P x \<and> fst (snd x) = v \<and> ?d x = d) \<longleftrightarrow>
          (\<exists>obb i. (obb, v, i) \<in> set ?ts \<and> vfCandidate obb v i \<and> vfDistance obb v i = d)"
      by force
    also have "\<dots> \<longleftrightarrow> isContactCandidate obb1 obb2 v d"
      unfolding set_vfTests isContactCandidate_def by blast
    finally show ?thesis by simp
  qed
  have "fold ?step ?ts ?st = ?st \<and> (\<forall>x \<in> set ?ts. ?P x \<longrightarrow> snd ?st \<le> ?d x) \<or>
        (\<exists>x \<in> set ?ts. ?P x \<and> fold ?step ?ts ?st = ?mk x \<and> ?d x < snd ?st \<and>
           (\<forall>y \<in> set ?ts. ?P y \<longrightarrow> ?d x \<le> ?d y))"
    by (rule fold_keep_min) (auto simp: vfStep_eq)
  then show ?thesis
  proof (elim disjE conjE bexE)
    assume "fold ?step ?ts ?st = ?st" "\<forall>x \<in> set ?ts. ?P x \<longrightarrow> snd ?st \<le> ?d x"
    then have "vertexFaceCollision obb1 obb2 = Vec3 0 0 0 \<and>
        (\<forall>v d. isContactCandidate obb1 obb2 v d \<longrightarrow> FLT_MAX \<le> d)"
      unfolding cand_iff vertexFaceCollision_as_fold by auto
    then show ?thesis by (rule disjI1)
  next
    fix x assume x: "x \<in> set ?ts" "?P x" "fold ?step ?ts ?st = ?mk x" "?d x < snd ?st"
      "\<forall>y \<in> set ?ts. ?P y \<longrightarrow> ?d x \<le> ?d y"
    have "isContactCandidate obb1 obb2 (vertexFaceCollision obb1 obb2) (?d x) \<and> ?d x < FLT_MAX \<and>
      (\<forall>v' d'. isContactCandidate obb1 obb2 v' d' \<longrightarrow> ?d x \<le> d')"
      unfolding cand_iff vertexFaceCollision_as_fold using x
      by (auto simp: case_prod_unfold)
    then show ?thesis by (intro disjI2 exI [of _ "?d x"])
  qed
qed

lemma isContactCandidate_vertex:
  "isContactCandidate obb1 obb2 v d \<Longrightarrow> v \<in> set (getVertices obb1) \<union> set (getVertices obb2)"
  by (auto simp: isContactCandidate_def)

lemma SATCollision_branch:
  assumes ret: "SATCollision g obb1 obb2 res = (True, r)"
    and small: "\<exists>a \<in> set (testAxes obb1 obb2). axisOverlap obb1 obb2 a < FLT_MAX"
  shows "collisionType r = ''vertex-face'' \<and> contactPoint r = vertexFaceCollision obb1 obb2 \<or>
         collisionType r = ''edge-edge'' \<and> contactPoint r = edgeEdgeCollision obb1 obb2"
proof -
  from SATCollision_small_overlap [OF ret small]
  obtain pre ax where r: "r = (if length (pre :: vec3 list) \<le> 5
                then res\<lparr>collisionDetected := True,
                         penetrationDepth := axisOverlap obb1 obb2 ax,
                         collisionNormal := ax,
                         collisionType := ''vertex-face'',
                         contactPoint := vertexFaceCollision obb1 obb2\<rparr>
                else res\<lparr>collisionDetected := True,
                         penetrationDepth := axisOverlap obb1 obb2 ax,
                         collisionNormal := ax,
                         collisionType := ''edge-edge'',
                         contactPoint := edgeEdgeCollision obb1 obb2\<rparr>)"
    by blast
  show ?thesis
    by (cases "length pre \<le> 5") (simp_all add: r)
qed

lemma SATCollision_vertex_face_branch:
  assumes "SATCollision g obb1 obb2 res = (True, r)"
    and "collisionType r = ''vertex-face''"
    and "\<exists>a \<in> set (testAxes obb1 obb2). axisOverlap obb1 obb2 a < FLT_MAX"
  shows "contactPoint r = vertexFaceCollision obb1 obb2"
  using SATCollision_branch [OF assms(1,3)] assms(2) by auto


text \<open>
  Where the vertex-face branch finds a vertex: when the call takes that branch (it returns
  true with type \<open>vertex-face\<close> and some candidate axis has an overlap below
  \<open>FLT_MAX\<close>) and some candidate vertex has an absolute penetration distance below
  \<open>FLT_MAX\<close>, the reported contact point is a candidate vertex whose absolute
  penetration distance is least among all candidates of both directions.
\<close>

lemma vertex_face_contact_candidate:
  assumes ret: "SATCollision g obb1 obb2 res = (True, r)"
    and ty: "collisionType r = ''vertex-face''"
    and branch: "\<exists>a \<in> set (testAxes obb1 obb2). axisOverlap obb1 obb2 a < FLT_MAX"
    and cand: "\<exists>v d. isContactCandidate obb1 obb2 v d \<and> d < FLT_MAX"
  shows "contactPoint r \<in> set (getVertices obb1) \<union> set (getVertices obb2) \<and>
         (\<exists>d. isContactCandidate obb1 obb2 (contactPoint r) d \<and>
              (\<forall>v' d'. isContactCandidate obb1 obb2 v' d' \<longrightarrow> d \<le> d'))"
proof -
  have cp: "contactPoint r = vertexFaceCollision obb1 obb2"
    using ret ty branch by (rule SATCollision_vertex_face_branch)
  from vertexFaceCollision_cases [of obb1 obb2] cand
  obtain d where d: "isContactCandidate obb1 obb2 (vertexFaceCollision obb1 obb2) d"
    "\<forall>v' d'. isContactCandidate obb1 obb2 v' d' \<longrightarrow> d \<le> d'"
    by (elim disjE conjE exE) (force, blast)
  from d(1) have "vertexFaceCollision obb1 obb2 \<in> set (getVertices obb1) \<union> set (getVertices obb2)"
    by (rule isContactCandidate_vertex)
  with d show ?thesis unfolding cp by blast
qed

lemma testAxes_slab_small:
  "testAxes slabBox smallBox =
      [Vec3 1 0 0, Vec3 0 1 0, Vec3 0 0 1, Vec3 1 0 0, Vec3 0 1 0, Vec3 0 0 1,
       Vec3 0 0 1, Vec3 0 (- 1) 0, Vec3 0 0 (- 1), Vec3 1 0 0, Vec3 0 1 0, Vec3 (- 1) 0 0]"
  "testAxes smallBox slabBox =
      [Vec3 1 0 0, Vec3 0 1 0, Vec3 0 0 1, Vec3 1 0 0, Vec3 0 1 0, Vec3 0 0 1,
       Vec3 0 0 1, Vec3 0 (- 1) 0, Vec3 0 0 (- 1), Vec3 1 0 0, Vec3 0 1 0, Vec3 (- 1) 0 0]"
  by (rule testAxes_unitAxes; simp add: slabBox_def smallBox_def)+

lemma vertices_slabBox:
  "getVertices slabBox =
     [Vec3 8 8 2, Vec3 8 8 (- 2), Vec3 8 (- 8) 2, Vec3 8 (- 8) (- 2),
      Vec3 (- 8) 8 2, Vec3 (- 8) 8 (- 2), Vec3 (- 8) (- 8) 2, Vec3 (- 8) (- 8) (- 2)]"
  by (simp add: getVertices_def slabBox_def unitAxes_def smul_def vadd_def vsub_def)

lemma vertices_smallBox:
  "getVertices smallBox =
     [Vec3 4 4 3, Vec3 4 4 1, Vec3 4 2 3, Vec3 4 2 1,
      Vec3 2 4 3, Vec3 2 4 1, Vec3 2 2 3, Vec3 2 2 1]"
  by (simp add: getVertices_def smallBox_def unitAxes_def smul_def vadd_def vsub_def)

lemma vfCandidate_aligned:
  "vfCandidate \<lparr>center = c, halfExtents = h, axes = unitAxes\<rparr> v 0 \<longleftrightarrow>
     vx v - vx c < 0 \<and> \<bar>vy v - vy c\<bar> \<le> vy h \<and> \<bar>vz v - vz c\<bar> \<le> vz h"
  "vfCandidate \<lparr>center = c, halfExtents = h, axes = unitAxes\<rparr> v (Suc 0) \<longleftrightarrow>
     vy v - vy c < 0 \<and> \<bar>vz v - vz c\<bar> \<le> vz h \<and> \<bar>vx v - vx c\<bar> \<le> vx h"
  "vfCandidate \<lparr>center = c, halfExtents = h, axes = unitAxes\<rparr> v 2 \<longleftrightarrow>
     vz v - vz c < 0 \<and> \<bar>vx v - vx c\<bar> \<le> vx h \<and> \<bar>vy v - vy c\<bar> \<le> vy h"
  by (simp_all add: vfCandidate_def signedDistanceToPlane_def isPointInFaceBounds_def
      unitAxes_def glm_dot_def vsub_def component_def)

lemma no_candidates_slab_small:
  "\<forall>v \<in> set (getVertices slabBox). \<forall>i \<in> {0, 1, 2}. \<not> vfCandidate smallBox v i"
  "\<forall>v \<in> set (getVertices smallBox). \<forall>i \<in> {0, 1, 2}. \<not> vfCandidate slabBox v i"
  unfolding vertices_slabBox vertices_smallBox
  by (simp_all add: vfCandidate_aligned slabBox_def smallBox_def)

lemma SATCollision_slab_small:
  "SATCollision g slabBox smallBox res =
     (True, res\<lparr>collisionDetected := True, penetrationDepth := 1,
                 collisionNormal := Vec3 0 0 1, collisionType := ''vertex-face'',
                 contactPoint := vertexFaceCollision slabBox smallBox\<rparr>)"
  unfolding SATCollision_def testAxes_slab_small
  by (simp add: slabBox_def smallBox_def unitAxes_def overlapOnAxis_def projectOBB_def
      glm_dot_def FLT_MAX_def)


lemma no_candidates_zero:
  assumes "\<forall>v \<in> set (getVertices obb1). \<forall>i \<in> {0, 1, 2}. \<not> vfCandidate obb2 v i"
    and "\<forall>v \<in> set (getVertices obb2). \<forall>i \<in> {0, 1, 2}. \<not> vfCandidate obb1 v i"
  shows "vertexFaceCollision obb1 obb2 = Vec3 0 0 0"
proof -
  have none: "\<not> isContactCandidate obb1 obb2 v d" for v d
    using assms unfolding isContactCandidate_def by blast
  from vertexFaceCollision_cases [of obb1 obb2] show ?thesis
    using none by blast
qed

text \<open>
  Claim C6. The code does not meet it. For the small cube in the slab (every value a small
  integer, exact in binary32) the least overlap, \<open>1\<close>, is on the face axis \<open>z\<close>, so
  the call returns true with type \<open>vertex-face\<close>; but no vertex of either box passes
  both tests of \<open>vertexFaceCollision\<close>, whose result is then the initial value of
  \<open>closestPoint\<close>: the reported contact point is \<open>(0,0,0)\<close>, a vertex of neither box,
  where the source's own comments promise a penetrating vertex, "the exact vertex-face
  contact point".
\<close>

theorem C6_failing_input:
  "fst (SATCollision (Vec3 0 0 0) slabBox smallBox emptyResult) \<and>
   collisionType (snd (SATCollision (Vec3 0 0 0) slabBox smallBox emptyResult)) = ''vertex-face'' \<and>
   penetrationDepth (snd (SATCollision (Vec3 0 0 0) slabBox smallBox emptyResult)) = 1 \<and>
   contactPoint (snd (SATCollision (Vec3 0 0 0) slabBox smallBox emptyResult)) = Vec3 0 0 0 \<and>
   contactPoint (snd (SATCollision (Vec3 0 0 0) slabBox smallBox emptyResult))
     \<notin> set (getVertices slabBox) \<union> set (getVertices smallBox) \<and>
   slabBox = \<lparr>center = Vec3 0 0 0, halfExtents = Vec3 8 8 2,
               axes = (Vec3 1 0 0, Vec3 0 1 0, Vec3 0 0 1)\<rparr> \<and>
   smallBox = \<lparr>center = Vec3 3 3 2, halfExtents = Vec3 1 1 1,
                axes = (Vec3 1 0 0, Vec3 0 1 0, Vec3 0 0 1)\<rparr>"
proof -
  have "vertexFaceCollision slabBox smallBox = Vec3 0 0 0"
    using no_candidates_slab_small by (rule no_candidates_zero)
  then show ?thesis
    by (simp add: SATCollision_slab_small vertices_slabBox vertices_smallBox)
       (simp add: slabBox_def smallBox_def unitAxes_def)
qed

lemma vertices_boxA:
  "getVertices boxA =
     [Vec3 1 1 1, Vec3 1 1 (- 1), Vec3 1 (- 1) 1, Vec3 1 (- 1) (- 1),
      Vec3 (- 1) 1 1, Vec3 (- 1) 1 (- 1), Vec3 (- 1) (- 1) 1, Vec3 (- 1) (- 1) (- 1)]"
  by (simp add: getVertices_def boxA_def unitAxes_def smul_def vadd_def vsub_def)

lemma candidate_boxA_boxB: "isContactCandidate boxA boxB (Vec3 1 1 1) (1 / 2)"
proof -
  have "Vec3 1 1 1 \<in> set (getVertices boxA)"
    by (simp add: vertices_boxA)
  moreover have "vfCandidate boxB (Vec3 1 1 1) 0"
    by (simp add: vfCandidate_aligned boxB_def)
  moreover have "vfDistance boxB (Vec3 1 1 1) 0 = 1 / 2"
    by (simp add: vfDistance_def signedDistanceToPlane_def boxB_def unitAxes_def
        glm_dot_def vsub_def)
  ultimately show ?thesis
    unfolding isContactCandidate_def by (intro bexI [of _ 0]) simp_all
qed

text \<open>On the example boxes A and B vertex \<open>(1,1,1)\<close> of A is a candidate.\<close>

lemma vertex_face_contact_boxA_boxB:
  "contactPoint (snd (SATCollision (Vec3 0 0 0) boxA boxB emptyResult))
     \<in> set (getVertices boxA) \<union> set (getVertices boxB)"
proof -
  let ?r = "snd (SATCollision (Vec3 0 0 0) boxA boxB emptyResult)"
  have ret: "SATCollision (Vec3 0 0 0) boxA boxB emptyResult = (True, ?r)"
    and ty: "collisionType ?r = ''vertex-face''"
    by (simp_all add: SATCollision_boxA_boxB)
  have small: "1 / 2 < FLT_MAX" by (simp add: FLT_MAX_def)
  have cand: "\<exists>v d. isContactCandidate boxA boxB v d \<and> d < FLT_MAX"
    using candidate_boxA_boxB small by blast
  have branch: "\<exists>a \<in> set (testAxes boxA boxB). axisOverlap boxA boxB a < FLT_MAX"
    using small_overlap_boxA_boxB by simp
  from vertex_face_contact_candidate [OF ret ty branch cand] show ?thesis by simp
qed











section \<open>The segment-distance solver\<close>

lemma glm_clamp_unit: "0 \<le> glm_clamp x 0 1" "glm_clamp x 0 1 \<le> 1"
  by (simp_all add: glm_clamp_def)

lemma closestParams_range:
  "0 \<le> fst (closestParams p1 q1 p2 q2)" "fst (closestParams p1 q1 p2 q2) \<le> 1"
  "0 \<le> snd (closestParams p1 q1 p2 q2)" "snd (closestParams p1 q1 p2 q2) \<le> 1"
  by (simp_all add: closestParams_def Let_def glm_clamp_unit)

lemma vadd_smul_zero: "vadd p (smul 0 d) = p"
  by (simp add: vadd_def smul_def)

lemma pointOn_zero: "pointOn p q 0 = p"
  by (simp add: pointOn_def vadd_smul_zero)

lemma squaredDistanceBetweenEdges_params:
  "squaredDistanceBetweenEdges p1 q1 p2 q2 =
     glm_length2 (vsub (pointOn p1 q1 (fst (closestParams p1 q1 p2 q2)))
                       (pointOn p2 q2 (snd (closestParams p1 q1 p2 q2))))"
  by (simp add: squaredDistanceBetweenEdges_def closestParams_def Let_def pointOn_def
      vadd_smul_zero glm_length2_def)

lemma closestPointBetweenLines_params:
  "closestPointBetweenLines p1 q1 p2 q2 =
     (let d1 = vsub q1 p1; d2 = vsub q2 p2;
          c1 = pointOn p1 q1 (fst (closestParams p1 q1 p2 q2));
          c2 = pointOn p2 q2 (snd (closestParams p1 q1 p2 q2))
      in if glm_dot d1 d1 \<le> EPS \<and> glm_dot d2 d2 \<le> EPS then p1
         else if glm_length (vsub c1 p1) < glm_length (vsub c2 p2) then c1 else c2)"
  by (simp add: closestPointBetweenLines_def closestParams_def Let_def pointOn_def
      vadd_smul_zero)

lemma clamp_quadratic_min:
  fixes E F W u :: real
  assumes E: "0 < E" and u: "0 \<le> u" "u \<le> 1"
  defines "t \<equiv> glm_clamp (F / E) 0 1"
  shows "W - 2 * t * F + t * t * E \<le> W - 2 * u * F + u * u * E"
proof -
  consider "F \<le> 0" | "E \<le> F" | "0 < F" "F < E" by linarith
  then show ?thesis
  proof cases
    case 1
    then have "F / E \<le> 0" using E by (simp add: divide_le_0_iff)
    then have t0: "t = 0" by (simp add: t_def glm_clamp_def)
    have "0 \<le> u * (- F)" using u(1) 1 by (intro mult_nonneg_nonneg) simp_all
    moreover have "0 \<le> u * u * E" using E by simp
    ultimately show ?thesis unfolding t0 by simp
  next
    case 2
    then have "1 \<le> F / E" using E by (simp add: le_divide_eq)
    then have t1: "t = 1" by (simp add: t_def glm_clamp_def)
    have "0 \<le> (1 - u) * (2 * F - E * (1 + u))"
    proof (intro mult_nonneg_nonneg)
      show "0 \<le> 1 - u" using u(2) by simp
      have "E * (1 + u) \<le> E * 2" using E u(2) by (intro mult_left_mono) simp_all
      with 2 show "0 \<le> 2 * F - E * (1 + u)" by simp
    qed
    also have "(1 - u) * (2 * F - E * (1 + u)) =
        (W - 2 * u * F + u * u * E) - (W - 2 * 1 * F + 1 * 1 * E)"
      by (simp add: algebra_simps)
    finally show ?thesis unfolding t1 by simp
  next
    case 3
    then have "0 \<le> F / E" "F / E \<le> 1" using E by simp_all
    then have tm: "t = F / E" by (simp add: t_def glm_clamp_def)
    have "0 \<le> E * ((u - F / E) * (u - F / E))" using E by simp
    also have "E * ((u - F / E) * (u - F / E)) =
        (W - 2 * u * F + u * u * E) - (W - 2 * (F / E) * F + (F / E) * (F / E) * E)"
      using E by (simp add: field_simps)
    finally show ?thesis unfolding tm by simp
  qed
qed

lemma glm_length2_point_segment:
  "glm_length2 (vsub w (smul u d)) = glm_dot w w - 2 * u * glm_dot d w + u * u * glm_dot d d"
  by (simp add: glm_length2_def glm_dot_def vsub_def smul_def algebra_simps)

lemma point_segment_min:
  assumes "0 < glm_dot d d" "0 \<le> u" "u \<le> 1"
  shows "glm_length2 (vsub w (smul (glm_clamp (glm_dot d w / glm_dot d d) 0 1) d))
           \<le> glm_length2 (vsub w (smul u d))"
  unfolding glm_length2_point_segment
  using clamp_quadratic_min [OF assms] by simp

lemma EPS_pos: "0 < EPS"
  by (simp add: EPS_def)

lemma vsub_pointOn_right: "vsub p1 (pointOn p2 q2 u) = vsub (vsub p1 p2) (smul u (vsub q2 p2))"
  by (simp add: pointOn_def vsub_def vadd_def smul_def)

lemma length2_pointOn_left:
  "glm_length2 (vsub (pointOn p1 q1 u) p2) =
     glm_length2 (vsub (vsub p2 p1) (smul u (vsub q1 p1)))"
  by (simp add: pointOn_def glm_length2_def glm_dot_def vsub_def vadd_def smul_def algebra_simps)

text \<open>The first segment is a point: the closest point of the second segment to it.\<close>

lemma sqd_first_degenerate:
  assumes a: "glm_dot (vsub q1 p1) (vsub q1 p1) \<le> EPS"
    and e: "\<not> glm_dot (vsub q2 p2) (vsub q2 p2) \<le> EPS"
  shows "closestParams p1 q1 p2 q2 =
           (0, glm_clamp (glm_dot (vsub q2 p2) (vsub p1 p2) / glm_dot (vsub q2 p2) (vsub q2 p2)) 0 1)"
    and "0 \<le> u \<Longrightarrow> u \<le> 1 \<Longrightarrow>
           squaredDistanceBetweenEdges p1 q1 p2 q2 \<le> glm_length2 (vsub p1 (pointOn p2 q2 u))"
proof -
  let ?d2 = "vsub q2 p2" and ?r = "vsub p1 p2"
  show P: "closestParams p1 q1 p2 q2 = (0, glm_clamp (glm_dot ?d2 ?r / glm_dot ?d2 ?d2) 0 1)"
    using a e by (simp add: closestParams_def Let_def)
  assume u: "0 \<le> u" "u \<le> 1"
  have pos: "0 < glm_dot ?d2 ?d2" using e EPS_pos by simp
  have "squaredDistanceBetweenEdges p1 q1 p2 q2 =
      glm_length2 (vsub ?r (smul (glm_clamp (glm_dot ?d2 ?r / glm_dot ?d2 ?d2) 0 1) ?d2))"
    unfolding squaredDistanceBetweenEdges_params P
    by (simp add: pointOn_zero vsub_pointOn_right)
  also have "\<dots> \<le> glm_length2 (vsub ?r (smul u ?d2))"
    using pos u by (rule point_segment_min)
  finally show "squaredDistanceBetweenEdges p1 q1 p2 q2 \<le> glm_length2 (vsub p1 (pointOn p2 q2 u))"
    by (simp add: vsub_pointOn_right)
qed

text \<open>The second segment is a point: the closest point of the first segment to it.\<close>

lemma sqd_second_degenerate:
  assumes a: "\<not> glm_dot (vsub q1 p1) (vsub q1 p1) \<le> EPS"
    and e: "glm_dot (vsub q2 p2) (vsub q2 p2) \<le> EPS"
  shows "closestParams p1 q1 p2 q2 =
           (glm_clamp (- glm_dot (vsub q1 p1) (vsub p1 p2) / glm_dot (vsub q1 p1) (vsub q1 p1)) 0 1, 0)"
    and "0 \<le> u \<Longrightarrow> u \<le> 1 \<Longrightarrow>
           squaredDistanceBetweenEdges p1 q1 p2 q2 \<le> glm_length2 (vsub (pointOn p1 q1 u) p2)"
proof -
  let ?d1 = "vsub q1 p1" and ?r = "vsub p1 p2" and ?w = "vsub p2 p1"
  show P: "closestParams p1 q1 p2 q2 =
      (glm_clamp (- glm_dot ?d1 ?r / glm_dot ?d1 ?d1) 0 1, 0)"
    using a e by (simp add: closestParams_def Let_def)
  assume u: "0 \<le> u" "u \<le> 1"
  have pos: "0 < glm_dot ?d1 ?d1" using a EPS_pos by simp
  have neg: "- glm_dot ?d1 ?r = glm_dot ?d1 ?w"
    by (simp add: glm_dot_def vsub_def algebra_simps)
  have "squaredDistanceBetweenEdges p1 q1 p2 q2 =
      glm_length2 (vsub ?w (smul (glm_clamp (glm_dot ?d1 ?w / glm_dot ?d1 ?d1) 0 1) ?d1))"
    unfolding squaredDistanceBetweenEdges_params P neg
    by (simp add: pointOn_zero length2_pointOn_left)
  also have "\<dots> \<le> glm_length2 (vsub ?w (smul u ?d1))"
    using pos u by (rule point_segment_min)
  finally show "squaredDistanceBetweenEdges p1 q1 p2 q2 \<le> glm_length2 (vsub (pointOn p1 q1 u) p2)"
    by (simp add: length2_pointOn_left)
qed

text \<open>
  The branches of the solver in exact arithmetic. With \<open>a\<close>, \<open>e\<close> the squared lengths of the two segments: both
  functions compute the same parameters \<open>s, t\<close> in \<open>[0, 1]\<close>, and the squared distance is
  that of the points \<open>p1 + s d1\<close> and \<open>p2 + t d2\<close>. When \<open>a\<close> and \<open>e\<close> are at most
  \<open>1e-6f\<close> the result is the point-to-point distance of the start points; when only
  \<open>a\<close> (only \<open>e\<close>) is, it is the least squared distance from \<open>p1\<close> (from \<open>p2\<close>) to a
  point of the other segment. When neither is and the denominator \<open>a e - b b\<close> is exactly
  zero, \<open>s = 0\<close> and \<open>t\<close> is \<open>f / e\<close> clamped to \<open>[0, 1]\<close>; for every other value of
  the denominator, however small, \<open>s\<close> is the clamped quotient by that denominator.
\<close>

lemma solver_branches_exact:
  "(let d1 = vsub q1 p1; d2 = vsub q2 p2; r = vsub p1 p2;
        a = glm_dot d1 d1; e = glm_dot d2 d2; b = glm_dot d1 d2;
        c = glm_dot d1 r; f = glm_dot d2 r;
        s = fst (closestParams p1 q1 p2 q2); t = snd (closestParams p1 q1 p2 q2)
    in squaredDistanceBetweenEdges p1 q1 p2 q2 =
         glm_length2 (vsub (pointOn p1 q1 s) (pointOn p2 q2 t)) \<and>
       0 \<le> s \<and> s \<le> 1 \<and> 0 \<le> t \<and> t \<le> 1 \<and>
       (a \<le> EPS \<and> e \<le> EPS \<longrightarrow>
          s = 0 \<and> t = 0 \<and>
          squaredDistanceBetweenEdges p1 q1 p2 q2 = glm_length2 (vsub p1 p2) \<and>
          closestPointBetweenLines p1 q1 p2 q2 = p1) \<and>
       (a \<le> EPS \<and> \<not> e \<le> EPS \<longrightarrow>
          s = 0 \<and> t = glm_clamp (f / e) 0 1 \<and>
          (\<forall>u. 0 \<le> u \<and> u \<le> 1 \<longrightarrow>
             squaredDistanceBetweenEdges p1 q1 p2 q2 \<le> glm_length2 (vsub p1 (pointOn p2 q2 u)))) \<and>
       (\<not> a \<le> EPS \<and> e \<le> EPS \<longrightarrow>
          t = 0 \<and> s = glm_clamp (- c / a) 0 1 \<and>
          (\<forall>u. 0 \<le> u \<and> u \<le> 1 \<longrightarrow>
             squaredDistanceBetweenEdges p1 q1 p2 q2 \<le> glm_length2 (vsub (pointOn p1 q1 u) p2))) \<and>
       (\<not> a \<le> EPS \<and> \<not> e \<le> EPS \<and> a * e - b * b = 0 \<longrightarrow>
          s = 0 \<and> t = glm_clamp (f / e) 0 1) \<and>
       (\<not> a \<le> EPS \<and> \<not> e \<le> EPS \<and> a * e - b * b \<noteq> 0 \<longrightarrow>
          s = glm_clamp ((b * f - c * e) / (a * e - b * b)) 0 1 \<and>
          t = glm_clamp ((b * s + f) / e) 0 1) \<and>
       (\<not> (a \<le> EPS \<and> e \<le> EPS) \<longrightarrow>
          closestPointBetweenLines p1 q1 p2 q2 =
            (if glm_length (vsub (pointOn p1 q1 s) p1) < glm_length (vsub (pointOn p2 q2 t) p2)
             then pointOn p1 q1 s else pointOn p2 q2 t)))"
proof -
  let ?d1 = "vsub q1 p1" and ?d2 = "vsub q2 p2" and ?r = "vsub p1 p2"
  let ?a = "glm_dot ?d1 ?d1" and ?e = "glm_dot ?d2 ?d2" and ?b = "glm_dot ?d1 ?d2"
  let ?c = "glm_dot ?d1 ?r" and ?f = "glm_dot ?d2 ?r"
  let ?s = "fst (closestParams p1 q1 p2 q2)" and ?t = "snd (closestParams p1 q1 p2 q2)"
  let ?sqd = "squaredDistanceBetweenEdges p1 q1 p2 q2"
  have general: "?sqd = glm_length2 (vsub (pointOn p1 q1 ?s) (pointOn p2 q2 ?t))"
    by (rule squaredDistanceBetweenEdges_params)
  have both: "?s = 0 \<and> ?t = 0 \<and> ?sqd = glm_length2 (vsub p1 p2) \<and>
      closestPointBetweenLines p1 q1 p2 q2 = p1" if "?a \<le> EPS \<and> ?e \<le> EPS"
    using that
    by (simp add: closestParams_def squaredDistanceBetweenEdges_def closestPointBetweenLines_def
        glm_length2_def Let_def)
  have first: "?s = 0 \<and> ?t = glm_clamp (?f / ?e) 0 1 \<and>
      (\<forall>u. 0 \<le> u \<and> u \<le> 1 \<longrightarrow> ?sqd \<le> glm_length2 (vsub p1 (pointOn p2 q2 u)))"
    if "?a \<le> EPS \<and> \<not> ?e \<le> EPS"
    using that sqd_first_degenerate [of q1 p1 q2 p2] by simp
  have second: "?t = 0 \<and> ?s = glm_clamp (- ?c / ?a) 0 1 \<and>
      (\<forall>u. 0 \<le> u \<and> u \<le> 1 \<longrightarrow> ?sqd \<le> glm_length2 (vsub (pointOn p1 q1 u) p2))"
    if "\<not> ?a \<le> EPS \<and> ?e \<le> EPS"
    using that sqd_second_degenerate [of q1 p1 q2 p2] by simp
  have parallel: "?s = 0 \<and> ?t = glm_clamp (?f / ?e) 0 1"
    if "\<not> ?a \<le> EPS \<and> \<not> ?e \<le> EPS \<and> ?a * ?e - ?b * ?b = 0"
    using that by (simp add: closestParams_def Let_def)
  have regular: "?s = glm_clamp ((?b * ?f - ?c * ?e) / (?a * ?e - ?b * ?b)) 0 1 \<and>
      ?t = glm_clamp ((?b * ?s + ?f) / ?e) 0 1"
    if "\<not> ?a \<le> EPS \<and> \<not> ?e \<le> EPS \<and> ?a * ?e - ?b * ?b \<noteq> 0"
    using that by (simp add: closestParams_def Let_def)
  have pick: "closestPointBetweenLines p1 q1 p2 q2 =
      (if glm_length (vsub (pointOn p1 q1 ?s) p1) < glm_length (vsub (pointOn p2 q2 ?t) p2)
       then pointOn p1 q1 ?s else pointOn p2 q2 ?t)"
    if "\<not> (?a \<le> EPS \<and> ?e \<le> EPS)"
    using that by (auto simp: closestPointBetweenLines_params Let_def)
  show ?thesis
    unfolding Let_def
    using general closestParams_range [of p1 q1 p2 q2] both first second parallel regular pick
    by blast
qed

lemma vec_eval:
  "vsub (Vec3 a b c) (Vec3 a' b' c') = Vec3 (a - a') (b - b') (c - c')"
  "vadd (Vec3 a b c) (Vec3 a' b' c') = Vec3 (a + a') (b + b') (c + c')"
  "smul k (Vec3 a b c) = Vec3 (k * a) (k * b) (k * c)"
  "glm_dot (Vec3 a b c) (Vec3 a' b' c') = a * a' + b * b' + c * c'"
  by (simp_all add: vsub_def vadd_def smul_def glm_dot_def)

text \<open>Four pairs of segments, one for each degenerate case.\<close>

lemma solver_branches_examples:
  "squaredDistanceBetweenEdges (Vec3 0 0 0) (Vec3 0 0 0) (Vec3 1 0 0) (Vec3 1 0 0) = 1 \<and>
   closestPointBetweenLines (Vec3 0 0 0) (Vec3 0 0 0) (Vec3 1 0 0) (Vec3 1 0 0) = Vec3 0 0 0 \<and>
   closestParams (Vec3 0 0 0) (Vec3 0 0 0) (Vec3 1 (- 1) 0) (Vec3 1 1 0) = (0, 1 / 2) \<and>
   squaredDistanceBetweenEdges (Vec3 0 0 0) (Vec3 0 0 0) (Vec3 1 (- 1) 0) (Vec3 1 1 0) = 1 \<and>
   closestParams (Vec3 1 (- 1) 0) (Vec3 1 1 0) (Vec3 0 0 0) (Vec3 0 0 0) = (1 / 2, 0) \<and>
   squaredDistanceBetweenEdges (Vec3 1 (- 1) 0) (Vec3 1 1 0) (Vec3 0 0 0) (Vec3 0 0 0) = 1 \<and>
   closestParams (Vec3 0 0 0) (Vec3 1 0 0) (Vec3 (- 1) 1 0) (Vec3 1 1 0) = (0, 1 / 2) \<and>
   squaredDistanceBetweenEdges (Vec3 0 0 0) (Vec3 1 0 0) (Vec3 (- 1) 1 0) (Vec3 1 1 0) = 1"
proof -
  have both: "squaredDistanceBetweenEdges (Vec3 0 0 0) (Vec3 0 0 0) (Vec3 1 0 0) (Vec3 1 0 0) = 1 \<and>
      closestPointBetweenLines (Vec3 0 0 0) (Vec3 0 0 0) (Vec3 1 0 0) (Vec3 1 0 0) = Vec3 0 0 0"
    using solver_branches_exact [where ?p1.0 = "Vec3 0 0 0" and ?q1.0 = "Vec3 0 0 0"
        and ?p2.0 = "Vec3 1 0 0" and ?q2.0 = "Vec3 1 0 0"]
    by (simp add: Let_def vec_eval EPS_def glm_length2_def pointOn_def)
  have first: "closestParams (Vec3 0 0 0) (Vec3 0 0 0) (Vec3 1 (- 1) 0) (Vec3 1 1 0) = (0, 1 / 2) \<and>
      squaredDistanceBetweenEdges (Vec3 0 0 0) (Vec3 0 0 0) (Vec3 1 (- 1) 0) (Vec3 1 1 0) = 1"
    using solver_branches_exact [where ?p1.0 = "Vec3 0 0 0" and ?q1.0 = "Vec3 0 0 0"
        and ?p2.0 = "Vec3 1 (- 1) 0" and ?q2.0 = "Vec3 1 1 0"]
    by (simp add: Let_def vec_eval EPS_def glm_length2_def glm_clamp_def pointOn_def
        prod_eq_iff)
  have second: "closestParams (Vec3 1 (- 1) 0) (Vec3 1 1 0) (Vec3 0 0 0) (Vec3 0 0 0) = (1 / 2, 0) \<and>
      squaredDistanceBetweenEdges (Vec3 1 (- 1) 0) (Vec3 1 1 0) (Vec3 0 0 0) (Vec3 0 0 0) = 1"
    using solver_branches_exact [where ?p1.0 = "Vec3 1 (- 1) 0" and ?q1.0 = "Vec3 1 1 0"
        and ?p2.0 = "Vec3 0 0 0" and ?q2.0 = "Vec3 0 0 0"]
    by (simp add: Let_def vec_eval EPS_def glm_length2_def glm_clamp_def pointOn_def
        prod_eq_iff)
  have par: "closestParams (Vec3 0 0 0) (Vec3 1 0 0) (Vec3 (- 1) 1 0) (Vec3 1 1 0) = (0, 1 / 2) \<and>
      squaredDistanceBetweenEdges (Vec3 0 0 0) (Vec3 1 0 0) (Vec3 (- 1) 1 0) (Vec3 1 1 0) = 1"
    using solver_branches_exact [where ?p1.0 = "Vec3 0 0 0" and ?q1.0 = "Vec3 1 0 0"
        and ?p2.0 = "Vec3 (- 1) 1 0" and ?q2.0 = "Vec3 1 1 0"]
    by (simp add: Let_def vec_eval EPS_def glm_length2_def glm_clamp_def pointOn_def
        prod_eq_iff)
  from both first second par show ?thesis by simp
qed

text \<open>
  Two nearly parallel unit segments: the denominator is
  \<open>2^-22\<close>, below \<open>1e-6f\<close>, and the solver does not fall back to \<open>s = 0\<close>: it returns
  \<open>s = 1\<close> and a squared distance below \<open>1\<close>, where \<open>s = 0\<close> with \<open>t\<close> solved alone
  gives \<open>5/4\<close>. Every coordinate, and the denominator, is exact in binary32.
\<close>

lemma solver_small_denominator:
  "glm_dot (vsub (Vec3 1 0 0) (Vec3 0 0 0)) (vsub (Vec3 1 0 0) (Vec3 0 0 0)) = 1 \<and>
   glm_dot (vsub (Vec3 (3 / 2) (- 2047 / 2048) 0) (Vec3 (1 / 2) (- 1) 0))
           (vsub (Vec3 (3 / 2) (- 2047 / 2048) 0) (Vec3 (1 / 2) (- 1) 0)) = 1 + 1 / 4194304 \<and>
   glm_dot (vsub (Vec3 1 0 0) (Vec3 0 0 0))
           (vsub (Vec3 (3 / 2) (- 2047 / 2048) 0) (Vec3 (1 / 2) (- 1) 0)) = 1 \<and>
   1 * (1 + 1 / 4194304) - 1 * 1 \<le> EPS \<and>
   closestParams (Vec3 0 0 0) (Vec3 1 0 0) (Vec3 (1 / 2) (- 1) 0) (Vec3 (3 / 2) (- 2047 / 2048) 0)
     = (1, 419840 / 838861) \<and>
   squaredDistanceBetweenEdges (Vec3 0 0 0) (Vec3 1 0 0)
     (Vec3 (1 / 2) (- 1) 0) (Vec3 (3 / 2) (- 2047 / 2048) 0) = 3353805 / 3355444 \<and>
   glm_length2 (vsub (pointOn (Vec3 0 0 0) (Vec3 1 0 0) 0)
     (pointOn (Vec3 (1 / 2) (- 1) 0) (Vec3 (3 / 2) (- 2047 / 2048) 0)
        (glm_clamp ((- 1023 / 2048) / (1 + 1 / 4194304)) 0 1))) = 5 / 4"
  by (simp add: closestParams_def squaredDistanceBetweenEdges_def Let_def vec_eval EPS_def
      glm_length2_def glm_clamp_def pointOn_def)

section \<open>Edge-edge contact recovery\<close>





text \<open>
  The solver clamps \<open>t\<close> to \<open>[0, 1]\<close> without solving for \<open>s\<close> again, so the two
  points it returns need not be the closest points of the two segments, and the value it
  returns need not be their squared distance: here it returns \<open>s = 1\<close>, \<open>t = 0\<close> and
  \<open>1\<close>, where the points at \<open>s = 1/2\<close>, \<open>t = 0\<close> are only \<open>1/2\<close> apart. (All
  values are exact in binary32.)
\<close>

lemma solver_not_minimal:
  "squaredDistanceBetweenEdges (Vec3 0 0 0) (Vec3 1 1 0) (Vec3 0 1 0) (Vec3 (- 1) 1 0) = 1 \<and>
   closestParams (Vec3 0 0 0) (Vec3 1 1 0) (Vec3 0 1 0) (Vec3 (- 1) 1 0) = (1, 0) \<and>
   glm_length2 (vsub (pointOn (Vec3 0 0 0) (Vec3 1 1 0) (1 / 2))
                     (pointOn (Vec3 0 1 0) (Vec3 (- 1) 1 0) 0)) = 1 / 2"
  by (simp add: closestParams_def squaredDistanceBetweenEdges_def Let_def vec_eval EPS_def
      glm_length2_def glm_clamp_def pointOn_def)


section \<open>An edge-edge collision: the tilted cubes\<close>

lemma projectOBB_smul:
  assumes "0 \<le> k"
  shows "projectOBB obb (smul k c) = (k * fst (projectOBB obb c), k * snd (projectOBB obb c))"
proof -
  have d: "glm_dot v (smul k c) = k * glm_dot v c" for v
    by (simp add: glm_dot_def smul_def algebra_simps)
  have a: "\<bar>k * x\<bar> = k * \<bar>x\<bar>" for x :: real
    using assms by (simp add: abs_mult)
  show ?thesis
    by (simp add: projectOBB_def Let_def d a algebra_simps)
qed

lemma normalize_as_smul:
  "glm_normalize c = smul (1 / glm_length c) c"
  by (simp add: glm_normalize_def glm_length_def)


lemma axisOverlap_normalize:
  assumes "0 < glm_length c"
  shows "axisOverlap obb1 obb2 (glm_normalize c) = axisOverlap obb1 obb2 c / glm_length c"
proof -
  let ?k = "1 / glm_length c"
  have k0: "0 \<le> ?k" using assms by simp
  have mn: "min (?k * x) (?k * y) = ?k * min x y" for x y :: real
    using k0 by (simp add: min_mult_distrib_left)
  have mx: "max (?k * x) (?k * y) = ?k * max x y" for x y :: real
    using k0 by (simp add: max_mult_distrib_left)
  show ?thesis
    unfolding normalize_as_smul axisOverlap_def projectOBB_smul [OF k0] fst_conv snd_conv mn mx
    by (simp add: algebra_simps diff_divide_distrib)
qed


































end
